theory Spec2Isabelle
  imports Complex_Main
begin

section \<open>Values, errors and effects\<close>

text \<open>
  The class \<^verbatim>\<open>TestHypothesis\<close> of \<^verbatim>\<open>hypothesis_testing.py\<close> orchestrates calls to
  SciPy, NumPy and pandas. None of these libraries is part of the repository, so the
  library is a parameter of every operation below: a record of functions, each of which
  may return a value or raise (\<open>None\<close>). The theorems hold for every such library.

  Python compares floating-point numbers, and a comparison with NaN is false whichever
  way it is asked. The values the code compares are therefore reals extended with NaN.
  Rounding is not modelled: the numbers are taken as the library returns them.
\<close>

datatype pyfloat = Fin real | NaN

fun float_lt :: "pyfloat \<Rightarrow> pyfloat \<Rightarrow> bool" where
  "float_lt (Fin a) (Fin b) = (a < b)"
| "float_lt _ _ = False"

fun float_gt :: "pyfloat \<Rightarrow> pyfloat \<Rightarrow> bool" where
  "float_gt (Fin a) (Fin b) = (a > b)"
| "float_gt _ _ = False"

fun float_eq :: "pyfloat \<Rightarrow> pyfloat \<Rightarrow> bool" where
  "float_eq (Fin a) (Fin b) = (a = b)"
| "float_eq _ _ = False"

text \<open>The external functions the class calls, as tags of the calls it makes.\<close>

datatype lib_fn =
    Shapiro | KsTest | NpMean | NpStd | NpVar | Bartlett | Levene
  | Ttest1Samp | TtestInd | TtestRel | FOneway | MannWhitneyU | Wilcoxon | Kruskal
  | Crosstab | Chi2Contingency | FisherExact | PearsonR | SpearmanR

text \<open>
  What a call does besides returning: it calls the library, it warns
  (\<^verbatim>\<open>warnings.warn\<close>, which under Python's default filter reports and returns), and it
  prints the verdict. The events are kept in the order in which they happen.
\<close>

datatype event = Call lib_fn | Warn string | Print string

text \<open>
  \<open>ValueError\<close> is what the class itself raises, with its message; \<open>IndexError\<close> is
  Python's own error on \<^verbatim>\<open>features[0]\<close>; \<open>LibraryFailure\<close> stands for
  whatever the named library function raised.
\<close>

datatype error = ValueError string | IndexError | LibraryFailure lib_fn

type_synonym 'a run = "event list \<times> (error + 'a)"

definition ret :: "'a \<Rightarrow> 'a run" where
  "ret x = ([], Inr x)"

definition raise :: "error \<Rightarrow> 'a run" where
  "raise e = ([], Inl e)"

definition emit :: "event \<Rightarrow> unit run" where
  "emit ev = ([ev], Inr ())"

definition call :: "lib_fn \<Rightarrow> 'a option \<Rightarrow> 'a run" where
  "call fn r = ([Call fn], (case r of None \<Rightarrow> Inl (LibraryFailure fn) | Some v \<Rightarrow> Inr v))"

text \<open>Sequencing: an error ends the run, and the events so far are kept.\<close>

definition and_then :: "'a run \<Rightarrow> ('a \<Rightarrow> 'b run) \<Rightarrow> 'b run" where
  "and_then m f =
     (case snd m of
        Inl e \<Rightarrow> (fst m, Inl e)
      | Inr x \<Rightarrow> (fst m @ fst (f x), snd (f x)))"

text \<open>Python's short-circuit \<^verbatim>\<open>or\<close>, \<^verbatim>\<open>and\<close> and \<^verbatim>\<open>not\<close> on effectful operands.\<close>

definition py_or :: "bool run \<Rightarrow> bool run \<Rightarrow> bool run" where
  "py_or a b = and_then a (\<lambda>x. if x then ret True else b)"

definition py_and :: "bool run \<Rightarrow> bool run \<Rightarrow> bool run" where
  "py_and a b = and_then a (\<lambda>x. if x then b else ret False)"

definition py_not :: "bool run \<Rightarrow> bool run" where
  "py_not a = and_then a (\<lambda>x. ret (\<not> x))"

section \<open>The external library\<close>

text \<open>
  Samples are sequences of values of a type \<open>'v\<close> that the class never inspects: it
  takes their length and hands them to the library. Of each statistical test only the
  p-value is used by the class, so only the p-value is returned here;
  \<^verbatim>\<open>chi2_contingency\<close> also returns the table of expected frequencies. \<open>np_var\<close> is
  \<^verbatim>\<open>np.var(x, ddof=1)\<close>, \<open>kstest\<close> is \<^verbatim>\<open>stats.kstest(x, 'norm', args=(m, s))\<close>,
  \<open>ttest_ind\<close> takes the \<^verbatim>\<open>equal_var\<close> flag, and the rank tests are two-sided.
\<close>

record 'v library =
  shapiro :: "'v list \<Rightarrow> pyfloat option"
  kstest :: "'v list \<Rightarrow> pyfloat \<Rightarrow> pyfloat \<Rightarrow> pyfloat option"
  np_mean :: "'v list \<Rightarrow> pyfloat option"
  np_std :: "'v list \<Rightarrow> pyfloat option"
  np_var :: "'v list \<Rightarrow> pyfloat option"
  bartlett :: "'v list list \<Rightarrow> pyfloat option"
  levene :: "'v list list \<Rightarrow> pyfloat option"
  ttest_1samp :: "'v list \<Rightarrow> pyfloat \<Rightarrow> pyfloat option"
  ttest_ind :: "'v list \<Rightarrow> 'v list \<Rightarrow> bool \<Rightarrow> pyfloat option"
  ttest_rel :: "'v list \<Rightarrow> 'v list \<Rightarrow> pyfloat option"
  f_oneway :: "'v list list \<Rightarrow> pyfloat option"
  mannwhitneyu :: "'v list \<Rightarrow> 'v list \<Rightarrow> pyfloat option"
  wilcoxon :: "'v list \<Rightarrow> 'v list \<Rightarrow> pyfloat option"
  kruskal :: "'v list list \<Rightarrow> pyfloat option"
  crosstab :: "'v list \<Rightarrow> 'v list \<Rightarrow> nat list list option"
  chi2_contingency :: "nat list list \<Rightarrow> (pyfloat \<times> pyfloat list list) option"
  fisher_exact :: "nat list list \<Rightarrow> pyfloat option"
  pearsonr :: "'v list \<Rightarrow> 'v list \<Rightarrow> pyfloat option"
  spearmanr :: "'v list \<Rightarrow> 'v list \<Rightarrow> pyfloat option"

section \<open>The class TestHypothesis\<close>

record TestHypothesis =
  significance_level :: pyfloat

definition isNormal :: "'v library \<Rightarrow> TestHypothesis \<Rightarrow> 'v list \<Rightarrow> bool run" where
  "isNormal L self feature =
     and_then
       (if length feature > 5000
        then and_then (call NpMean (np_mean L feature)) (\<lambda>mu.
             and_then (call NpStd (np_std L feature)) (\<lambda>sd.
             call KsTest (kstest L feature mu sd)))
        else call Shapiro (shapiro L feature))
       (\<lambda>p_value. ret (float_gt p_value (significance_level self)))"

text \<open>
  \<^verbatim>\<open>any(not self.isNormal(f) for f in features)\<close>: the generator stops at the first
  sample that is not normal.
\<close>

fun any_not_normal :: "'v library \<Rightarrow> TestHypothesis \<Rightarrow> 'v list list \<Rightarrow> bool run" where
  "any_not_normal L self [] = ret False"
| "any_not_normal L self (f # fs) =
     and_then (isNormal L self f) (\<lambda>normal.
       if \<not> normal then ret True else any_not_normal L self fs)"

definition hasEqualVariance ::
  "'v library \<Rightarrow> TestHypothesis \<Rightarrow> 'v list list \<Rightarrow> string \<Rightarrow> bool run" where
  "hasEqualVariance L self features method =
     and_then
       (if method = ''bartlett''
        then and_then (any_not_normal L self features) (\<lambda>bad.
               if bad then raise (ValueError ''Bartlett's test requires normality.'')
               else call Bartlett (bartlett L features))
        else call Levene (levene L features))
       (\<lambda>p_value. ret (float_gt p_value (significance_level self)))"

definition checkSignificance :: "TestHypothesis \<Rightarrow> pyfloat \<Rightarrow> (bool \<times> pyfloat) run" where
  "checkSignificance self p_value =
     (if float_lt p_value (significance_level self)
      then and_then
             (emit (Print (''Null Hypothesis rejected.'' @ [CHR 0x0A]
                           @ ''There is a significance difference.'')))
             (\<lambda>_. ret (True, p_value))
      else and_then
             (emit (Print (''Not enough evidence to reject Null Hypotheses.'' @ [CHR 0x0A]
                           @ ''There is no significance difference.'')))
             (\<lambda>_. ret (False, p_value)))"

definition OneSampleTtest ::
  "'v library \<Rightarrow> TestHypothesis \<Rightarrow> 'v list \<Rightarrow> pyfloat \<Rightarrow> bool \<Rightarrow> (bool \<times> pyfloat) run" where
  "OneSampleTtest L self feature meu clt =
     and_then (isNormal L self feature) (\<lambda>normal.
     and_then
       (if \<not> normal
        then (if \<not> clt then raise (ValueError ''Sample is not Normally distributed'')
              else if length feature \<le> 30
              then raise (ValueError ''Unable to apply CLT for feature size < 30'')
              else ret ())
        else ret ()) (\<lambda>_.
     and_then (call Ttest1Samp (ttest_1samp L feature meu)) (\<lambda>p_value.
     checkSignificance self p_value)))"

definition twoSampleTtest ::
  "'v library \<Rightarrow> TestHypothesis \<Rightarrow> 'v list \<Rightarrow> 'v list \<Rightarrow> bool \<Rightarrow> (bool \<times> pyfloat) run" where
  "twoSampleTtest L self feature1 feature2 clt =
     (if length feature1 \<noteq> length feature2
      then raise (ValueError ''Samples are of different sizes'')
      else
        and_then (py_or (py_not (isNormal L self feature1))
                        (py_not (isNormal L self feature2))) (\<lambda>not_normal.
        and_then
          (if not_normal
           then (if \<not> clt then raise (ValueError ''Samples are not Normally distributed'')
                 else if length feature1 \<le> 30
                 then raise (ValueError ''Unable to apply CLT for feature size < 30'')
                 else ret ())
           else ret ()) (\<lambda>_.
        and_then (hasEqualVariance L self [feature1, feature2] ''levene'') (\<lambda>equal_var.
        and_then (call TtestInd (ttest_ind L feature1 feature2 equal_var)) (\<lambda>p_value.
        checkSignificance self p_value)))))"

definition pairedTtest ::
  "'v library \<Rightarrow> TestHypothesis \<Rightarrow> 'v list \<Rightarrow> 'v list \<Rightarrow> bool \<Rightarrow> (bool \<times> pyfloat) run" where
  "pairedTtest L self feature1 feature2 clt =
     and_then (py_or (py_not (isNormal L self feature1))
                     (py_not (isNormal L self feature2))) (\<lambda>not_normal.
     and_then
       (if not_normal
        then (if \<not> clt then raise (ValueError ''Samples are not Normally distributed'')
              else if length feature1 \<le> 30
              then raise (ValueError ''Unable to apply CLT for feature size < 30'')
              else ret ())
        else ret ()) (\<lambda>_.
     and_then (call TtestRel (ttest_rel L feature1 feature2)) (\<lambda>p_value.
     checkSignificance self p_value)))"

text \<open>The second loop of \<^verbatim>\<open>ANOVA\<close>: the normality rule, sample by sample.\<close>

fun ANOVA_normality ::
  "'v library \<Rightarrow> TestHypothesis \<Rightarrow> bool \<Rightarrow> 'v list list \<Rightarrow> unit run" where
  "ANOVA_normality L self clt [] = ret ()"
| "ANOVA_normality L self clt (feature # rest) =
     and_then (isNormal L self feature) (\<lambda>normal.
     and_then
       (if \<not> normal
        then (if \<not> clt then raise (ValueError ''Sample is not Normally distributed'')
              else if length feature \<le> 30
              then raise (ValueError ''Unable to apply CLT for feature size < 30'')
              else ret ())
        else ret ()) (\<lambda>_.
     ANOVA_normality L self clt rest))"

text \<open>
  \<^verbatim>\<open>features[0]\<close> raises IndexError when no sample is given. The first loop warns
  once, at the first sample whose length is not that of the first one, and breaks.
\<close>

definition ANOVA ::
  "'v library \<Rightarrow> TestHypothesis \<Rightarrow> 'v list list \<Rightarrow> bool \<Rightarrow> (bool \<times> pyfloat) run" where
  "ANOVA L self features clt =
     (case features of
        [] \<Rightarrow> raise IndexError
      | first # _ \<Rightarrow>
          and_then
            (if list_ex (\<lambda>feature. length feature \<noteq> length first) features
             then emit (Warn (''Please ensure all the samples are of same length.''
                              @ [CHR 0x0A] @ ''Try downsampling the larger samples.''))
             else ret ()) (\<lambda>_.
          and_then (ANOVA_normality L self clt features) (\<lambda>_.
          and_then (hasEqualVariance L self features ''bartlett'') (\<lambda>equal_var.
          and_then (call FOneway (f_oneway L features)) (\<lambda>p_value.
          checkSignificance self p_value)))))"

definition mannWhitneyUtest ::
  "'v library \<Rightarrow> TestHypothesis \<Rightarrow> 'v list \<Rightarrow> 'v list \<Rightarrow> (bool \<times> pyfloat) run" where
  "mannWhitneyUtest L self feature1 feature2 =
     (let len1 = length feature1; len2 = length feature2 in
      and_then
        (if real_of_int \<bar>int len1 - int len2\<bar> > 0.5 * real (min len1 len2)
         then emit (Warn ''Warning: Large sample size difference may affect test accuracy!'')
         else ret ()) (\<lambda>_.
      and_then (py_and (isNormal L self feature1) (isNormal L self feature2)) (\<lambda>normal.
      and_then
        (if normal then emit (Warn ''Features are normal, Consider using t-test instead'')
         else ret ()) (\<lambda>_.
      and_then (call MannWhitneyU (mannwhitneyu L feature1 feature2)) (\<lambda>p_value.
      checkSignificance self p_value)))))"

definition wilcoxonSignedRanktest ::
  "'v library \<Rightarrow> TestHypothesis \<Rightarrow> 'v list \<Rightarrow> 'v list \<Rightarrow> (bool \<times> pyfloat) run" where
  "wilcoxonSignedRanktest L self feature1 feature2 =
     (let len1 = length feature1; len2 = length feature2 in
      if len1 \<noteq> len2
      then raise (ValueError (''Sample sizes are different.'' @ [CHR 0x0A]
                              @ ''Try using samples with same sizes''))
      else
        and_then (py_and (isNormal L self feature1) (isNormal L self feature2)) (\<lambda>normal.
        and_then
          (if normal
           then emit (Warn ''Features are normal, Consider using Paired sample t-test instead'')
           else ret ()) (\<lambda>_.
        and_then (call Wilcoxon (wilcoxon L feature1 feature2)) (\<lambda>p_value.
        checkSignificance self p_value))))"

definition kruskalWallis ::
  "'v library \<Rightarrow> TestHypothesis \<Rightarrow> 'v list list \<Rightarrow> (bool \<times> pyfloat) run" where
  "kruskalWallis L self features =
     and_then (call Kruskal (kruskal L features)) (\<lambda>p_value.
     checkSignificance self p_value)"

text \<open>
  \<^verbatim>\<open>(expected < 5).sum() > 0.2 * expected.size\<close> compares a count with a float. The
  float nearest to 0.2 lies just above 1/5, so the product is never below the exact
  fifth of the size, and no integer lies between the two: the comparison has the value
  it has over the reals.
\<close>

definition chiSquare ::
  "'v library \<Rightarrow> TestHypothesis \<Rightarrow> 'v list \<Rightarrow> 'v list \<Rightarrow> (bool \<times> pyfloat) run" where
  "chiSquare L self feature1 feature2 =
     and_then (call Crosstab (crosstab L feature1 feature2)) (\<lambda>ct.
     and_then (call Chi2Contingency (chi2_contingency L ct)) (\<lambda>(p_value, expected).
     and_then
       (if real (length (filter (\<lambda>e. float_lt e (Fin 5)) (concat expected)))
             > 0.2 * real (length (concat expected))
        then raise (ValueError
               ''Some expected frequencies are too small, Fisher's test is preferred.'')
        else ret ()) (\<lambda>_.
     checkSignificance self p_value)))"

definition fisherExacttest ::
  "'v library \<Rightarrow> TestHypothesis \<Rightarrow> 'v list \<Rightarrow> 'v list \<Rightarrow> (bool \<times> pyfloat) run" where
  "fisherExacttest L self feature1 feature2 =
     and_then
       (if length feature1 \<ge> 5 \<and> length feature2 \<ge> 5
        then emit (Warn (''Sample lengths are >=5.'' @ [CHR 0x0A]
                         @ ''Try using Chi-Square test.''))
        else ret ()) (\<lambda>_.
     and_then (call Crosstab (crosstab L feature1 feature2)) (\<lambda>ct.
     and_then (call FisherExact (fisher_exact L ct)) (\<lambda>p_value.
     checkSignificance self p_value)))"

definition pearsonCorrelation ::
  "'v library \<Rightarrow> TestHypothesis \<Rightarrow> 'v list \<Rightarrow> 'v list \<Rightarrow> (bool \<times> pyfloat) run" where
  "pearsonCorrelation L self feature1 feature2 =
     (if length feature1 \<noteq> length feature2
      then raise (ValueError (''Sample lenghts are not equal.'' @ [CHR 0x0A]
                              @ ''Try using downsampling methods.''))
      else
        and_then
          (py_or (and_then (call NpVar (np_var L feature1)) (\<lambda>v. ret (float_eq v (Fin 0))))
                 (and_then (call NpVar (np_var L feature2)) (\<lambda>v. ret (float_eq v (Fin 0)))))
          (\<lambda>zero_variance.
        and_then
          (if zero_variance
           then raise (ValueError (''Variance of feature should not be 0.'' @ [CHR 0x0A]
                                   @ ''Try using Spearman Correlation instead.''))
           else ret ()) (\<lambda>_.
        and_then (py_or (py_not (isNormal L self feature1))
                        (py_not (isNormal L self feature2))) (\<lambda>not_normal.
        and_then
          (if not_normal then raise (ValueError ''Samples are not normally distributed.'')
           else ret ()) (\<lambda>_.
        and_then (call PearsonR (pearsonr L feature1 feature2)) (\<lambda>p_value.
        checkSignificance self p_value))))))"

definition spearmanCorrelation ::
  "'v library \<Rightarrow> TestHypothesis \<Rightarrow> 'v list \<Rightarrow> 'v list \<Rightarrow> (bool \<times> pyfloat) run" where
  "spearmanCorrelation L self feature1 feature2 =
     (if length feature1 \<noteq> length feature2
      then raise (ValueError (''Sample lenghts are not equal.'' @ [CHR 0x0A]
                              @ ''Try using downsampling methods.''))
      else
        and_then (call SpearmanR (spearmanr L feature1 feature2)) (\<lambda>p_value.
        checkSignificance self p_value))"

section \<open>A library with fixed answers\<close>

text \<open>
  For concrete runs: a library whose normality tests report \<open>pn\<close>, whose variance
  tests and statistical tests report \<open>pt\<close>, whose sample variance is \<open>v\<close>, and whose
  contingency test reports the expected frequencies \<open>ex\<close>.
\<close>

definition fixed_library ::
  "pyfloat \<Rightarrow> pyfloat \<Rightarrow> pyfloat \<Rightarrow> pyfloat list list \<Rightarrow> 'v library" where
  "fixed_library pn pt v ex =
     \<lparr> shapiro = (\<lambda>_. Some pn),
       kstest = (\<lambda>_ _ _. Some pn),
       np_mean = (\<lambda>_. Some (Fin 0)),
       np_std = (\<lambda>_. Some (Fin 1)),
       np_var = (\<lambda>_. Some v),
       bartlett = (\<lambda>_. Some pt),
       levene = (\<lambda>_. Some pt),
       ttest_1samp = (\<lambda>_ _. Some pt),
       ttest_ind = (\<lambda>_ _ _. Some pt),
       ttest_rel = (\<lambda>_ _. Some pt),
       f_oneway = (\<lambda>_. Some pt),
       mannwhitneyu = (\<lambda>_ _. Some pt),
       wilcoxon = (\<lambda>_ _. Some pt),
       kruskal = (\<lambda>_. Some pt),
       crosstab = (\<lambda>_ _. Some [[1, 1], [1, 1]]),
       chi2_contingency = (\<lambda>_. Some (pt, ex)),
       fisher_exact = (\<lambda>_. Some pt),
       pearsonr = (\<lambda>_ _. Some pt),
       spearmanr = (\<lambda>_ _. Some pt) \<rparr>"

section \<open>Predicates and inputs of the statements\<close>

text \<open>
  The invariant of a test result: when a run returns a pair, its first component says
  whether the p-value is strictly below the significance level.
\<close>

definition verdict_ok :: "TestHypothesis \<Rightarrow> (bool \<times> pyfloat) run \<Rightarrow> bool" where
  "verdict_ok self r =
     (case snd r of
        Inl e \<Rightarrow> True
      | Inr (rejected, p_value) \<Rightarrow> rejected = float_lt p_value (significance_level self))"

text \<open>A normal-looking library, an engine at the usual level 0.05.\<close>

definition lib0 :: "real library" where
  "lib0 = fixed_library (Fin 0.5) (Fin 0.01) (Fin 1) [[Fin 10, Fin 10], [Fin 10, Fin 10]]"

definition self0 :: TestHypothesis where
  "self0 = \<lparr>significance_level = Fin 0.05\<rparr>"

text \<open>
  A library whose normality tests report 0.01, below the level: no sample is normal.
  Its sample variance is 0 and its expected frequencies are all 1.
\<close>

definition lib1 :: "real library" where
  "lib1 = fixed_library (Fin 0.01) (Fin 0.5) (Fin 0) [[Fin 1, Fin 1], [Fin 1, Fin 1]]"

text \<open>A library whose samples are not normal (0.01) and have sample variance 1.\<close>

definition lib2 :: "real library" where
  "lib2 = fixed_library (Fin 0.01) (Fin 0.5) (Fin 1) [[Fin 1, Fin 1], [Fin 1, Fin 1]]"

text \<open>
  The answers of the library on the constant sample \<open>[0.1, 0.1, 0.1]\<close>, computed in
  double precision as \<^verbatim>\<open>np.var(x, ddof=1)\<close> computes them. The sum 0.1 + 0.1 + 0.1
  rounds to 0.30000000000000004 and the mean to 0.10000000000000002, which lies
  \<open>1 / 2 ^ 56\<close> above the double 0.1. Each deviation from the mean is \<open>- 1 / 2 ^ 56\<close>,
  each square \<open>1 / 2 ^ 112\<close>, their sum \<open>3 / 2 ^ 112\<close>, and the variance, the sum
  divided by 2, is \<open>3 / 2 ^ 113\<close>, about 2.9e-34: not 0, although the sample is
  constant. The variance of any other sample is 1 here, the normality tests accept
  every sample (1), and the tests, the correlation test among them, report NaN, as
  \<^verbatim>\<open>pearsonr\<close> does when one sample is constant.
\<close>

definition lib_rounding :: "real library" where
  "lib_rounding =
     (fixed_library (Fin 1) NaN (Fin 1) [])
       \<lparr> np_var := (\<lambda>x. if x = [0.1, 0.1, 0.1] then Some (Fin (3 / 2 ^ 113))
                         else Some (Fin 1)) \<rparr>"

text \<open>
  Statements about the order of events. \<open>avoids P r\<close>: no event of the run satisfies
  \<open>P\<close>. \<open>raised_before fn r\<close>: if the run ends in a ValueError of the class, the
  library function \<open>fn\<close> was not called before it.
\<close>

definition avoids :: "(event \<Rightarrow> bool) \<Rightarrow> 'a run \<Rightarrow> bool" where
  "avoids P r = list_all (\<lambda>e. \<not> P e) (fst r)"

definition raised_before :: "lib_fn \<Rightarrow> 'a run \<Rightarrow> bool" where
  "raised_before fn r =
     (case snd r of
        Inl e \<Rightarrow> (case e of ValueError m \<Rightarrow> Call fn \<notin> set (fst r) | _ \<Rightarrow> True)
      | Inr v \<Rightarrow> True)"

text \<open>
  Statements about warnings. \<open>warn_continues t\<close>: in the trace \<open>t\<close> every warning is
  followed at once by a call of the library, so the operation went on after it.
  \<open>error_aborts r\<close>: a run that ends in an error has printed no verdict.
\<close>

fun is_warn :: "event \<Rightarrow> bool" where
  "is_warn (Warn w) = True"
| "is_warn _ = False"

fun is_print :: "event \<Rightarrow> bool" where
  "is_print (Print s) = True"
| "is_print _ = False"

fun is_call :: "event \<Rightarrow> bool" where
  "is_call (Call fn) = True"
| "is_call _ = False"

definition starts_with_call :: "event list \<Rightarrow> bool" where
  "starts_with_call t = (case t of [] \<Rightarrow> False | e # _ \<Rightarrow> is_call e)"

fun warn_continues :: "event list \<Rightarrow> bool" where
  "warn_continues [] = True"
| "warn_continues (Warn w # t) = (starts_with_call t \<and> warn_continues t)"
| "warn_continues (e # t) = warn_continues t"

definition error_aborts :: "'a run \<Rightarrow> bool" where
  "error_aborts r = (case snd r of Inl e \<Rightarrow> avoids is_print r | Inr v \<Rightarrow> True)"

section \<open>Sequencing lemmas\<close>

lemma snd_and_then:
  "snd (and_then m f) = (case snd m of Inl e \<Rightarrow> Inl e | Inr x \<Rightarrow> snd (f x))"
  by (simp add: and_then_def split: sum.split)

lemma fst_and_then:
  "fst (and_then m f) = (case snd m of Inl e \<Rightarrow> fst m | Inr x \<Rightarrow> fst m @ fst (f x))"
  by (simp add: and_then_def split: sum.split)

lemma and_then_ret [simp]: "and_then (ret x) f = f x"
  by (simp add: and_then_def ret_def)

lemma and_then_raise [simp]: "and_then (raise e) f = raise e"
  by (simp add: and_then_def raise_def)

lemma and_then_Inr [simp]: "and_then (t, Inr x) f = (t @ fst (f x), snd (f x))"
  by (simp add: and_then_def)

lemma and_then_Inl [simp]: "and_then (t, Inl e) f = (t, Inl e)"
  by (simp add: and_then_def)

lemma snd_ret [simp]: "snd (ret x) = Inr x"
  by (simp add: ret_def)

lemma fst_ret [simp]: "fst (ret x) = []"
  by (simp add: ret_def)

lemma snd_raise [simp]: "snd (raise e) = Inl e"
  by (simp add: raise_def)

lemma fst_raise [simp]: "fst (raise e) = []"
  by (simp add: raise_def)

lemma snd_emit [simp]: "snd (emit ev) = Inr ()"
  by (simp add: emit_def)

lemma fst_emit [simp]: "fst (emit ev) = [ev]"
  by (simp add: emit_def)

lemma fst_call [simp]: "fst (call fn r) = [Call fn]"
  by (simp add: call_def)

lemma snd_call_Some [simp]: "snd (call fn (Some v)) = Inr v"
  by (simp add: call_def)

lemma snd_call_None [simp]: "snd (call fn None) = Inl (LibraryFailure fn)"
  by (simp add: call_def)

lemmas run_defs =
  isNormal_def hasEqualVariance_def checkSignificance_def OneSampleTtest_def
  twoSampleTtest_def pairedTtest_def ANOVA_def mannWhitneyUtest_def
  wilcoxonSignedRanktest_def kruskalWallis_def chiSquare_def fisherExacttest_def
  pearsonCorrelation_def spearmanCorrelation_def py_or_def py_and_def py_not_def
  fixed_library_def call_def emit_def ret_def raise_def

section \<open>The significance verdict\<close>

lemma snd_checkSignificance:
  "snd (checkSignificance self p) = Inr (float_lt p (significance_level self), p)"
  by (simp add: checkSignificance_def snd_and_then)

lemma verdict_ok_and_then:
  "(\<And>x. verdict_ok self (f x)) \<Longrightarrow> verdict_ok self (and_then m f)"
  by (cases "snd m") (auto simp: verdict_ok_def snd_and_then split: sum.split)

lemma verdict_ok_check: "verdict_ok self (checkSignificance self p)"
  by (simp add: verdict_ok_def snd_checkSignificance)

lemma verdict_ok_raise: "verdict_ok self (raise e)"
  by (simp add: verdict_ok_def)

lemmas verdict_intros = verdict_ok_and_then verdict_ok_check verdict_ok_raise

lemma verdict_OneSampleTtest: "verdict_ok self (OneSampleTtest L self feature meu clt)"
  unfolding OneSampleTtest_def by (intro verdict_intros)

lemma verdict_twoSampleTtest: "verdict_ok self (twoSampleTtest L self f1 f2 clt)"
  unfolding twoSampleTtest_def by (auto intro!: verdict_intros)

lemma verdict_pairedTtest: "verdict_ok self (pairedTtest L self f1 f2 clt)"
  unfolding pairedTtest_def by (intro verdict_intros)

lemma verdict_ANOVA: "verdict_ok self (ANOVA L self fs clt)"
  unfolding ANOVA_def by (auto intro!: verdict_intros split: list.split)

lemma verdict_mannWhitneyUtest: "verdict_ok self (mannWhitneyUtest L self f1 f2)"
  unfolding mannWhitneyUtest_def Let_def by (intro verdict_intros)

lemma verdict_wilcoxonSignedRanktest: "verdict_ok self (wilcoxonSignedRanktest L self f1 f2)"
  unfolding wilcoxonSignedRanktest_def Let_def by (auto intro!: verdict_intros)

lemma verdict_kruskalWallis: "verdict_ok self (kruskalWallis L self fs)"
  unfolding kruskalWallis_def by (intro verdict_intros)

lemma verdict_chiSquare: "verdict_ok self (chiSquare L self f1 f2)"
  unfolding chiSquare_def by (auto intro!: verdict_intros)

lemma verdict_fisherExacttest: "verdict_ok self (fisherExacttest L self f1 f2)"
  unfolding fisherExacttest_def by (intro verdict_intros)

lemma verdict_pearsonCorrelation: "verdict_ok self (pearsonCorrelation L self f1 f2)"
  unfolding pearsonCorrelation_def by (auto intro!: verdict_intros)

lemma verdict_spearmanCorrelation: "verdict_ok self (spearmanCorrelation L self f1 f2)"
  unfolding spearmanCorrelation_def by (auto intro!: verdict_intros)

text \<open>
  Claim C1. \<open>checkSignificance\<close> prints the verdict of its branch and returns the
  pair of \<open>p_value < \<alpha>\<close> and the p-value unchanged, for every p-value (NaN
  included, for which the comparison is false). Every test operation ends in
  \<open>checkSignificance\<close>, so whenever one returns a pair, the pair satisfies
  \<open>rejected = (p_value < \<alpha>)\<close>.
\<close>

theorem checkSignificance_invariant:
  "checkSignificance self p_value =
     ([Print (if float_lt p_value (significance_level self)
              then ''Null Hypothesis rejected.'' @ [CHR 0x0A]
                   @ ''There is a significance difference.''
              else ''Not enough evidence to reject Null Hypotheses.'' @ [CHR 0x0A]
                   @ ''There is no significance difference.'')],
      Inr (float_lt p_value (significance_level self), p_value))
   \<and> verdict_ok self (OneSampleTtest L self feature meu clt)
   \<and> verdict_ok self (twoSampleTtest L self feature1 feature2 clt)
   \<and> verdict_ok self (pairedTtest L self feature1 feature2 clt)
   \<and> verdict_ok self (ANOVA L self features clt)
   \<and> verdict_ok self (mannWhitneyUtest L self feature1 feature2)
   \<and> verdict_ok self (wilcoxonSignedRanktest L self feature1 feature2)
   \<and> verdict_ok self (kruskalWallis L self features)
   \<and> verdict_ok self (chiSquare L self feature1 feature2)
   \<and> verdict_ok self (fisherExacttest L self feature1 feature2)
   \<and> verdict_ok self (pearsonCorrelation L self feature1 feature2)
   \<and> verdict_ok self (spearmanCorrelation L self feature1 feature2)"
proof -
  have "checkSignificance self p_value =
     ([Print (if float_lt p_value (significance_level self)
              then ''Null Hypothesis rejected.'' @ [CHR 0x0A]
                   @ ''There is a significance difference.''
              else ''Not enough evidence to reject Null Hypotheses.'' @ [CHR 0x0A]
                   @ ''There is no significance difference.'')],
      Inr (float_lt p_value (significance_level self), p_value))"
    by (simp add: checkSignificance_def emit_def ret_def)
  then show ?thesis
    by (simp only: verdict_OneSampleTtest verdict_twoSampleTtest verdict_pairedTtest
        verdict_ANOVA verdict_mannWhitneyUtest verdict_wilcoxonSignedRanktest
        verdict_kruskalWallis verdict_chiSquare verdict_fisherExacttest
        verdict_pearsonCorrelation verdict_spearmanCorrelation simp_thms)
qed

theorem checkSignificance_invariant_witness:
  "snd (checkSignificance \<lparr>significance_level = Fin 0.05\<rparr> (Fin 0.01)) = Inr (True, Fin 0.01)
   \<and> snd (OneSampleTtest lib0 self0 [1, 2, 3] (Fin 0) False) = Inr (True, Fin 0.01)
   \<and> verdict_ok self0 (OneSampleTtest lib0 self0 [1, 2, 3] (Fin 0) False)
   \<and> snd (twoSampleTtest lib0 self0 [1, 2, 3] [4, 5, 6] False) = Inr (True, Fin 0.01)
   \<and> verdict_ok self0 (twoSampleTtest lib0 self0 [1, 2, 3] [4, 5, 6] False)
   \<and> snd (pairedTtest lib0 self0 [1, 2, 3] [4, 5, 6] False) = Inr (True, Fin 0.01)
   \<and> snd (ANOVA lib0 self0 [[1, 2, 3], [4, 5, 6]]  False) = Inr (True, Fin 0.01)
   \<and> snd (mannWhitneyUtest lib0 self0 [1, 2, 3] [4, 5, 6]) = Inr (True, Fin 0.01)
   \<and> snd (wilcoxonSignedRanktest lib0 self0 [1, 2, 3] [4, 5, 6]) = Inr (True, Fin 0.01)
   \<and> snd (kruskalWallis lib0 self0 [[1, 2, 3], [4, 5, 6]]) = Inr (True, Fin 0.01)
   \<and> snd (chiSquare lib0 self0 [1, 2, 3] [4, 5, 6]) = Inr (True, Fin 0.01)
   \<and> snd (fisherExacttest lib0 self0 [1, 2, 3] [4, 5, 6]) = Inr (True, Fin 0.01)
   \<and> snd (pearsonCorrelation lib0 self0 [1, 2, 3] [4, 5, 6]) = Inr (True, Fin 0.01)
   \<and> snd (spearmanCorrelation lib0 self0 [1, 2, 3] [4, 5, 6]) = Inr (True, Fin 0.01)"
  using checkSignificance_invariant [of self0 "Fin 0.01" lib0 "[1, 2, 3]" "Fin 0" False
      "[1, 2, 3]" "[4, 5, 6]" "[[1, 2, 3], [4, 5, 6]]"]
  by (simp add: run_defs lib0_def self0_def)

section \<open>Size checks\<close>

text \<open>
  Claim C2. When the two samples differ in length, \<open>twoSampleTtest\<close> raises the
  ValueError of the size check whatever the samples, the library and the \<open>clt\<close>
  flag are, and the run has no event: no normality test, no variance test and no
  t-test was called.
\<close>

theorem twoSampleTtest_unequal_length:
  "length feature1 \<noteq> length feature2 \<Longrightarrow>
   twoSampleTtest L self feature1 feature2 clt =
     ([], Inl (ValueError ''Samples are of different sizes''))"
  by (simp add: twoSampleTtest_def raise_def)

theorem twoSampleTtest_unequal_length_witness:
  "length [1, 2, 3 :: real] \<noteq> length [4, 5 :: real]
   \<and> twoSampleTtest lib0 self0 [1, 2, 3] [4, 5] True =
       ([], Inl (ValueError ''Samples are of different sizes''))"
  using twoSampleTtest_unequal_length [of "[1, 2, 3 :: real]" "[4, 5]" lib0 self0 True]
  by simp

section \<open>The normality rule of the one-sample t-test\<close>

lemma and_then_snd_Inr: "snd m = Inr x \<Longrightarrow> and_then m f = (fst m @ fst (f x), snd (f x))"
  by (simp add: and_then_def)

lemma and_then_snd_Inl: "snd m = Inl e \<Longrightarrow> and_then m f = (fst m, Inl e)"
  by (simp add: and_then_def)

lemma snd_call_check:
  "snd (and_then (call fn r) (checkSignificance self)) =
     (case r of None \<Rightarrow> Inl (LibraryFailure fn)
      | Some p \<Rightarrow> Inr (float_lt p (significance_level self), p))"
  by (simp add: snd_and_then snd_checkSignificance split: option.split)

lemma fst_call_check:
  "fst (and_then (call fn r) (checkSignificance self)) =
     (case r of None \<Rightarrow> [Call fn]
      | Some p \<Rightarrow> Call fn # fst (checkSignificance self p))"
  by (simp add: fst_and_then split: option.split)

text \<open>
  Claim C3. For a sample on which \<open>isNormal\<close> returns false: without \<open>clt\<close>,
  \<open>OneSampleTtest\<close> raises the ValueError of the normality check; with \<open>clt\<close> it
  raises a ValueError exactly when the sample has at most 30 values, and for more than
  30 values the run is the normality test followed by the call of the t-test and the
  verdict on its p-value.
\<close>

theorem OneSampleTtest_normality_rule:
  assumes "snd (isNormal L self feature) = Inr False"
  shows "(\<not> clt \<longrightarrow> snd (OneSampleTtest L self feature meu clt) =
            Inl (ValueError ''Sample is not Normally distributed''))
    \<and> (clt \<longrightarrow> ((\<exists>m. snd (OneSampleTtest L self feature meu clt) = Inl (ValueError m))
                 \<longleftrightarrow> length feature \<le> 30))
    \<and> (clt \<and> length feature \<le> 30 \<longrightarrow> snd (OneSampleTtest L self feature meu clt) =
            Inl (ValueError ''Unable to apply CLT for feature size < 30''))
    \<and> (clt \<and> length feature > 30 \<longrightarrow>
          OneSampleTtest L self feature meu clt =
            and_then (isNormal L self feature) (\<lambda>_.
            and_then (call Ttest1Samp (ttest_1samp L feature meu)) (checkSignificance self))
          \<and> Call Ttest1Samp \<in> set (fst (OneSampleTtest L self feature meu clt)))"
proof -
  note step = and_then_snd_Inr [OF assms]
  have a: "\<not> clt \<longrightarrow> snd (OneSampleTtest L self feature meu clt) =
            Inl (ValueError ''Sample is not Normally distributed'')"
    unfolding OneSampleTtest_def by (simp add: step)
  have c: "clt \<and> length feature \<le> 30 \<longrightarrow> snd (OneSampleTtest L self feature meu clt) =
            Inl (ValueError ''Unable to apply CLT for feature size < 30'')"
    unfolding OneSampleTtest_def by (simp add: step)
  have d: "clt \<and> length feature > 30 \<longrightarrow>
          OneSampleTtest L self feature meu clt =
            and_then (isNormal L self feature) (\<lambda>_.
            and_then (call Ttest1Samp (ttest_1samp L feature meu)) (checkSignificance self))
          \<and> Call Ttest1Samp \<in> set (fst (OneSampleTtest L self feature meu clt))"
    unfolding OneSampleTtest_def
    by (auto simp: step fst_call_check split: option.split)
  have b: "clt \<longrightarrow> ((\<exists>m. snd (OneSampleTtest L self feature meu clt) = Inl (ValueError m))
                 \<longleftrightarrow> length feature \<le> 30)"
    unfolding OneSampleTtest_def
    by (auto simp: step snd_call_check split: option.split)
  from a b c d show ?thesis by blast
qed

theorem OneSampleTtest_normality_rule_witness:
  "snd (isNormal lib1 self0 (replicate 20 1)) = Inr False
   \<and> snd (isNormal lib1 self0 (replicate 50 1)) = Inr False
   \<and> snd (OneSampleTtest lib1 self0 (replicate 20 1) (Fin 0) False) =
        Inl (ValueError ''Sample is not Normally distributed'')
   \<and> snd (OneSampleTtest lib1 self0 (replicate 20 1) (Fin 0) True) =
        Inl (ValueError ''Unable to apply CLT for feature size < 30'')
   \<and> OneSampleTtest lib1 self0 (replicate 50 1) (Fin 0) True =
        ([Call Shapiro, Call Ttest1Samp,
          Print (''Not enough evidence to reject Null Hypotheses.'' @ [CHR 0x0A]
                 @ ''There is no significance difference.'')],
         Inr (False, Fin 0.5))"
proof -
  have n20: "snd (isNormal lib1 self0 (replicate 20 1)) = Inr False"
    by (simp add: run_defs lib1_def self0_def)
  have n50: "snd (isNormal lib1 self0 (replicate 50 1)) = Inr False"
    by (simp add: run_defs lib1_def self0_def)
  show ?thesis
    using n20 n50
      OneSampleTtest_normality_rule [OF n20, of False "Fin 0"]
      OneSampleTtest_normality_rule [OF n20, of True "Fin 0"]
      OneSampleTtest_normality_rule [OF n50, of True "Fin 0"]
    by (simp add: run_defs lib1_def self0_def)
qed

section \<open>The expected-frequency rule of the chi-square test\<close>

lemma chiSquare_run:
  assumes "crosstab L feature1 feature2 = Some ct"
      and "chi2_contingency L ct = Some (p_value, expected)"
  shows "snd (chiSquare L self feature1 feature2) =
     (if real (length (filter (\<lambda>e. float_lt e (Fin 5)) (concat expected)))
           > 0.2 * real (length (concat expected))
      then Inl (ValueError
             ''Some expected frequencies are too small, Fisher's test is preferred.'')
      else Inr (float_lt p_value (significance_level self), p_value))"
  using assms by (simp add: chiSquare_def call_def snd_and_then snd_checkSignificance)

lemma fifth_as_percent:
  "(real a > 0.2 * real b) \<longleftrightarrow> (100 * a > 20 * b)"
proof -
  have "(real a > 0.2 * real b) \<longleftrightarrow> (real (5 * a) > real b)"
    by (simp add: mult.commute)
  also have "\<dots> \<longleftrightarrow> 5 * a > b" by (simp only: of_nat_less_iff)
  finally show ?thesis by simp
qed

lemma two_by_two_all_low:
  assumes "length expected = 2"
      and "\<forall>row\<in>set expected. length row = 2 \<and> (\<forall>e\<in>set row. float_lt e (Fin 5))"
  shows "length (concat expected) = 4
     \<and> length (filter (\<lambda>e. float_lt e (Fin 5)) (concat expected)) = 4"
proof -
  from assms(1) obtain r1 r2 where e: "expected = [r1, r2]"
    by (metis (no_types) length_0_conv length_Suc_conv numeral_2_eq_2)
  with assms(2) have len: "length r1 = 2" "length r2 = 2" by simp_all
  have all: "\<forall>e\<in>set (concat expected). float_lt e (Fin 5)"
    using assms(2) by auto
  then have "filter (\<lambda>e. float_lt e (Fin 5)) (concat expected) = concat expected"
    by simp
  then show ?thesis using e len by simp
qed

text \<open>
  Claim C5. When the library has built the contingency table and returned the p-value
  and the expected frequencies, \<open>chiSquare\<close> raises a ValueError exactly when
  strictly more than 20 percent of the expected cells are below 5, and otherwise
  returns the verdict of \<open>checkSignificance\<close> on the p-value. On a table of two rows
  of two cells, all below 5, it raises.
\<close>

theorem chiSquare_expected_frequency_rule:
  assumes "crosstab L feature1 feature2 = Some ct"
      and "chi2_contingency L ct = Some (p_value, expected)"
  shows "((\<exists>m. snd (chiSquare L self feature1 feature2) = Inl (ValueError m))
          \<longleftrightarrow> 100 * length (filter (\<lambda>e. float_lt e (Fin 5)) (concat expected))
                > 20 * length (concat expected))
    \<and> (\<not> 100 * length (filter (\<lambda>e. float_lt e (Fin 5)) (concat expected))
                > 20 * length (concat expected)
        \<longrightarrow> snd (chiSquare L self feature1 feature2) = snd (checkSignificance self p_value))
    \<and> (length expected = 2
        \<and> (\<forall>row\<in>set expected. length row = 2 \<and> (\<forall>e\<in>set row. float_lt e (Fin 5)))
        \<longrightarrow> snd (chiSquare L self feature1 feature2) =
              Inl (ValueError
                ''Some expected frequencies are too small, Fisher's test is preferred.''))"
proof -
  note run = chiSquare_run [OF assms, of self]
  have a: "(\<exists>m. snd (chiSquare L self feature1 feature2) = Inl (ValueError m))
          \<longleftrightarrow> 100 * length (filter (\<lambda>e. float_lt e (Fin 5)) (concat expected))
                > 20 * length (concat expected)"
    unfolding run fifth_as_percent by simp
  have b: "\<not> 100 * length (filter (\<lambda>e. float_lt e (Fin 5)) (concat expected))
                > 20 * length (concat expected)
        \<longrightarrow> snd (chiSquare L self feature1 feature2) = snd (checkSignificance self p_value)"
    unfolding run fifth_as_percent by (simp add: snd_checkSignificance)
  have c: "length expected = 2
        \<and> (\<forall>row\<in>set expected. length row = 2 \<and> (\<forall>e\<in>set row. float_lt e (Fin 5)))
        \<longrightarrow> snd (chiSquare L self feature1 feature2) =
              Inl (ValueError
                ''Some expected frequencies are too small, Fisher's test is preferred.'')"
  proof
    assume h: "length expected = 2
        \<and> (\<forall>row\<in>set expected. length row = 2 \<and> (\<forall>e\<in>set row. float_lt e (Fin 5)))"
    then have "length (concat expected) = 4
     \<and> length (filter (\<lambda>e. float_lt e (Fin 5)) (concat expected)) = 4"
      using two_by_two_all_low by blast
    then show "snd (chiSquare L self feature1 feature2) =
              Inl (ValueError
                ''Some expected frequencies are too small, Fisher's test is preferred.'')"
      unfolding run by simp
  qed
  from a b c show ?thesis by blast
qed

theorem chiSquare_expected_frequency_rule_witness:
  "crosstab lib1 [1, 2] [3, 4] = Some [[1, 1], [1, 1]]
   \<and> chi2_contingency lib1 [[1, 1], [1, 1]] =
        Some (Fin 0.5, [[Fin 1, Fin 1], [Fin 1, Fin 1]])
   \<and> snd (chiSquare lib1 self0 [1, 2] [3, 4]) =
        Inl (ValueError
          ''Some expected frequencies are too small, Fisher's test is preferred.'')
   \<and> crosstab lib0 [1, 2] [3, 4] = Some [[1, 1], [1, 1]]
   \<and> chi2_contingency lib0 [[1, 1], [1, 1]] =
        Some (Fin 0.01, [[Fin 10, Fin 10], [Fin 10, Fin 10]])
   \<and> snd (chiSquare lib0 self0 [1, 2] [3, 4]) = Inr (True, Fin 0.01)"
proof -
  have t1: "crosstab lib1 [1, 2] [3, 4] = Some [[1, 1], [1, 1]]"
    by (simp add: lib1_def fixed_library_def)
  have e1: "chi2_contingency lib1 [[1, 1], [1, 1]] =
        Some (Fin 0.5, [[Fin 1, Fin 1], [Fin 1, Fin 1]])"
    by (simp add: lib1_def fixed_library_def)
  have t0: "crosstab lib0 [1, 2] [3, 4] = Some [[1, 1], [1, 1]]"
    by (simp add: lib0_def fixed_library_def)
  have e0: "chi2_contingency lib0 [[1, 1], [1, 1]] =
        Some (Fin 0.01, [[Fin 10, Fin 10], [Fin 10, Fin 10]])"
    by (simp add: lib0_def fixed_library_def)
  show ?thesis
    using t1 e1 t0 e0
      chiSquare_expected_frequency_rule [OF t1 e1, of self0]
      chiSquare_expected_frequency_rule [OF t0 e0, of self0]
    by (simp add: snd_checkSignificance self0_def)
qed

section \<open>Normality checks over several samples\<close>

lemma isNormal_error:
  "snd (isNormal L self f) = Inl e \<Longrightarrow> \<exists>fn. e = LibraryFailure fn"
  by (auto simp: isNormal_def snd_and_then call_def split: if_splits option.splits sum.splits)

lemma snd_any_not_normal_Cons:
  "snd (any_not_normal L self (f # fs)) =
     (case snd (isNormal L self f) of
        Inl e \<Rightarrow> Inl e
      | Inr normal \<Rightarrow> if \<not> normal then Inr True else snd (any_not_normal L self fs))"
  by (simp add: snd_and_then split: sum.split)

lemma any_not_normal_error:
  "snd (any_not_normal L self fs) = Inl e \<Longrightarrow> \<exists>fn. e = LibraryFailure fn"
proof (induction fs)
  case Nil
  then show ?case by simp
next
  case (Cons f fs)
  then show ?case
    by (auto simp: snd_any_not_normal_Cons simp del: any_not_normal.simps(2)
        dest: isNormal_error split: sum.splits if_splits)
qed

lemma any_not_normal_False_iff:
  "snd (any_not_normal L self fs) = Inr False \<longleftrightarrow>
     (\<forall>f\<in>set fs. snd (isNormal L self f) = Inr True)"
  by (induction fs)
    (auto simp: snd_any_not_normal_Cons simp del: any_not_normal.simps(2)
      split: sum.splits)

lemma any_not_normal_True_iff:
  "snd (any_not_normal L self fs) = Inr True \<longleftrightarrow>
     (\<exists>i<length fs. snd (isNormal L self (fs ! i)) = Inr False
        \<and> (\<forall>j<i. snd (isNormal L self (fs ! j)) = Inr True))"
proof (induction fs)
  case Nil
  then show ?case by simp
next
  case (Cons f fs)
  show ?case
  proof (cases "snd (isNormal L self f)")
    case (Inl e)
    have "\<not> (\<exists>i<length (f # fs). snd (isNormal L self ((f # fs) ! i)) = Inr False
        \<and> (\<forall>j<i. snd (isNormal L self ((f # fs) ! j)) = Inr True))"
    proof
      assume "\<exists>i<length (f # fs). snd (isNormal L self ((f # fs) ! i)) = Inr False
        \<and> (\<forall>j<i. snd (isNormal L self ((f # fs) ! j)) = Inr True)"
      then obtain i where i: "snd (isNormal L self ((f # fs) ! i)) = Inr False"
        "\<forall>j<i. snd (isNormal L self ((f # fs) ! j)) = Inr True" by blast
      show False
      proof (cases i)
        case 0
        with i(1) Inl show False by simp
      next
        case (Suc k)
        with i(2) have "snd (isNormal L self ((f # fs) ! 0)) = Inr True" by blast
        with Inl show False by simp
      qed
    qed
    with Inl show ?thesis
        by (simp add: snd_any_not_normal_Cons del: any_not_normal.simps(2))
  next
    case (Inr normal)
    show ?thesis
    proof (cases normal)
      case False
      with Inr have "snd (isNormal L self ((f # fs) ! 0)) = Inr False" by simp
      then have "\<exists>i<length (f # fs). snd (isNormal L self ((f # fs) ! i)) = Inr False
        \<and> (\<forall>j<i. snd (isNormal L self ((f # fs) ! j)) = Inr True)"
        by (intro exI [of _ 0]) simp
      with Inr False show ?thesis
        by (simp add: snd_any_not_normal_Cons del: any_not_normal.simps(2))
    next
      case True
      have "(\<exists>i<length (f # fs). snd (isNormal L self ((f # fs) ! i)) = Inr False
              \<and> (\<forall>j<i. snd (isNormal L self ((f # fs) ! j)) = Inr True))
         \<longleftrightarrow> (\<exists>i<length fs. snd (isNormal L self (fs ! i)) = Inr False
              \<and> (\<forall>j<i. snd (isNormal L self (fs ! j)) = Inr True))" (is "?l \<longleftrightarrow> ?r")
      proof
        assume ?l
        then obtain i where i: "i < length (f # fs)"
          "snd (isNormal L self ((f # fs) ! i)) = Inr False"
          "\<forall>j<i. snd (isNormal L self ((f # fs) ! j)) = Inr True" by blast
        from i(2) Inr True obtain k where k: "i = Suc k" by (cases i) auto
        from i(3) k have "\<forall>j<k. snd (isNormal L self (fs ! j)) = Inr True"
          by (metis Suc_less_eq nth_Cons_Suc)
        with i(1,2) k show ?r by auto
      next
        assume ?r
        then obtain k where k: "k < length fs"
          "snd (isNormal L self (fs ! k)) = Inr False"
          "\<forall>j<k. snd (isNormal L self (fs ! j)) = Inr True" by blast
        have "\<forall>j<Suc k. snd (isNormal L self ((f # fs) ! j)) = Inr True"
        proof (intro allI impI)
          fix j assume "j < Suc k"
          then show "snd (isNormal L self ((f # fs) ! j)) = Inr True"
            using k(3) Inr True by (cases j) auto
        qed
        with k(1,2) show ?l by (intro exI [of _ "Suc k"]) simp
      qed
      with Inr True Cons.IH show ?thesis
        by (simp add: snd_any_not_normal_Cons del: any_not_normal.simps(2))
    qed
  qed
qed

lemma any_not_normal_total_iff:
  assumes "\<forall>f\<in>set fs. \<exists>b. snd (isNormal L self f) = Inr b"
  shows "snd (any_not_normal L self fs) = Inr True \<longleftrightarrow>
     (\<exists>f\<in>set fs. snd (isNormal L self f) = Inr False)"
  using assms
  by (induction fs)
    (auto simp: snd_any_not_normal_Cons simp del: any_not_normal.simps(2)
      split: sum.splits)

lemma snd_hasEqualVariance_bartlett:
  "snd (hasEqualVariance L self fs ''bartlett'') =
     (case snd (any_not_normal L self fs) of
        Inl e \<Rightarrow> Inl e
      | Inr bad \<Rightarrow>
          if bad then Inl (ValueError ''Bartlett's test requires normality.'')
          else (case bartlett L fs of
                  None \<Rightarrow> Inl (LibraryFailure Bartlett)
                | Some p \<Rightarrow> Inr (float_gt p (significance_level self))))"
  by (simp add: hasEqualVariance_def snd_and_then split: sum.split option.split)

lemma hasEqualVariance_bartlett_ValueError_iff:
  "(\<exists>m. snd (hasEqualVariance L self fs ''bartlett'') = Inl (ValueError m))
     \<longleftrightarrow> snd (any_not_normal L self fs) = Inr True"
  by (auto simp: snd_hasEqualVariance_bartlett dest: any_not_normal_error
      split: sum.splits option.splits if_splits)

lemma hasEqualVariance_levene:
  "method \<noteq> ''bartlett'' \<Longrightarrow>
   hasEqualVariance L self fs method =
     ([Call Levene],
      case levene L fs of
        None \<Rightarrow> Inl (LibraryFailure Levene)
      | Some p \<Rightarrow> Inr (float_gt p (significance_level self)))"
  by (simp add: hasEqualVariance_def call_def ret_def split: option.split)

text \<open>
  Claim C6. With method \<open>bartlett\<close>, \<open>hasEqualVariance\<close> raises a ValueError
  exactly when some sample fails \<open>isNormal\<close> and the samples before it passed (the
  check stops at the first failure); when \<open>isNormal\<close> returns a verdict on every
  sample this is: exactly when some sample fails \<open>isNormal\<close>. With any other method,
  the default \<open>levene\<close> among them, the only event of the run is the call of the
  Levene test: no normality check is made and no ValueError is raised. A returned
  result is true iff the p-value of the variance test is strictly greater than the
  significance level.
\<close>

theorem hasEqualVariance_normality_rule:
  "((\<exists>m. snd (hasEqualVariance L self features ''bartlett'') = Inl (ValueError m))
      \<longleftrightarrow> (\<exists>i<length features. snd (isNormal L self (features ! i)) = Inr False
             \<and> (\<forall>j<i. snd (isNormal L self (features ! j)) = Inr True)))
   \<and> ((\<forall>f\<in>set features. \<exists>b. snd (isNormal L self f) = Inr b) \<longrightarrow>
        ((\<exists>m. snd (hasEqualVariance L self features ''bartlett'') = Inl (ValueError m))
          \<longleftrightarrow> (\<exists>f\<in>set features. snd (isNormal L self f) = Inr False)))
   \<and> (\<forall>b. snd (hasEqualVariance L self features ''bartlett'') = Inr b \<longrightarrow>
          (\<exists>p. bartlett L features = Some p \<and> b = float_gt p (significance_level self)))
   \<and> (method \<noteq> ''bartlett'' \<longrightarrow>
        hasEqualVariance L self features method =
          ([Call Levene],
           case levene L features of
             None \<Rightarrow> Inl (LibraryFailure Levene)
           | Some p \<Rightarrow> Inr (float_gt p (significance_level self))))"
proof -
  have a: "(\<exists>m. snd (hasEqualVariance L self features ''bartlett'') = Inl (ValueError m))
      \<longleftrightarrow> (\<exists>i<length features. snd (isNormal L self (features ! i)) = Inr False
             \<and> (\<forall>j<i. snd (isNormal L self (features ! j)) = Inr True))"
    by (simp only: hasEqualVariance_bartlett_ValueError_iff any_not_normal_True_iff)
  have b: "(\<forall>f\<in>set features. \<exists>b. snd (isNormal L self f) = Inr b) \<longrightarrow>
        ((\<exists>m. snd (hasEqualVariance L self features ''bartlett'') = Inl (ValueError m))
          \<longleftrightarrow> (\<exists>f\<in>set features. snd (isNormal L self f) = Inr False))"
    using any_not_normal_total_iff [of features L self]
    by (simp only: hasEqualVariance_bartlett_ValueError_iff) blast
  have c: "\<forall>b. snd (hasEqualVariance L self features ''bartlett'') = Inr b \<longrightarrow>
          (\<exists>p. bartlett L features = Some p \<and> b = float_gt p (significance_level self))"
    by (auto simp: snd_hasEqualVariance_bartlett split: sum.splits option.splits if_splits)
  have d: "method \<noteq> ''bartlett'' \<longrightarrow>
        hasEqualVariance L self features method =
          ([Call Levene],
           case levene L features of
             None \<Rightarrow> Inl (LibraryFailure Levene)
           | Some p \<Rightarrow> Inr (float_gt p (significance_level self)))"
    using hasEqualVariance_levene by blast
  from a b c d show ?thesis by blast
qed

theorem hasEqualVariance_normality_rule_witness:
  "snd (isNormal lib1 self0 [1, 2, 3]) = Inr False
   \<and> snd (isNormal lib1 self0 [4, 5, 6]) = Inr False
   \<and> (\<exists>m. snd (hasEqualVariance lib1 self0 [[1, 2, 3], [4, 5, 6]] ''bartlett'') =
            Inl (ValueError m))
   \<and> ''levene'' \<noteq> ''bartlett''
   \<and> hasEqualVariance lib1 self0 [[1, 2, 3], [4, 5, 6]] ''levene'' =
        ([Call Levene], Inr True)
   \<and> snd (hasEqualVariance lib0 self0 [[1, 2, 3], [4, 5, 6]] ''bartlett'') = Inr False
   \<and> bartlett lib0 [[1, 2, 3], [4, 5, 6]] = Some (Fin 0.01)"
proof -
  have n1: "snd (isNormal lib1 self0 [1, 2, 3]) = Inr False"
    by (simp add: run_defs lib1_def self0_def)
  have n2: "snd (isNormal lib1 self0 [4, 5, 6]) = Inr False"
    by (simp add: run_defs lib1_def self0_def)
  from n1 n2
  have tot: "\<forall>f\<in>set [[1, 2, 3], [4, 5, 6 :: real]]. \<exists>b. snd (isNormal lib1 self0 f) = Inr b"
    by auto
  from n1
  have ex: "\<exists>f\<in>set [[1, 2, 3], [4, 5, 6 :: real]]. snd (isNormal lib1 self0 f) = Inr False"
    by simp
  have neq: "''levene'' \<noteq> ''bartlett''"
    by simp
  note rule1 = hasEqualVariance_normality_rule
    [of lib1 self0 "[[1, 2, 3], [4, 5, 6]]" "''levene''"]
  from rule1 tot ex
  have r1: "\<exists>m. snd (hasEqualVariance lib1 self0 [[1, 2, 3], [4, 5, 6]] ''bartlett'') =
            Inl (ValueError m)"
    by blast
  from rule1 neq
  have "hasEqualVariance lib1 self0 [[1, 2, 3], [4, 5, 6]] ''levene'' =
          ([Call Levene],
           case levene lib1 [[1, 2, 3], [4, 5, 6]] of
             None \<Rightarrow> Inl (LibraryFailure Levene)
           | Some p \<Rightarrow> Inr (float_gt p (significance_level self0)))"
    by blast
  then have r2: "hasEqualVariance lib1 self0 [[1, 2, 3], [4, 5, 6]] ''levene'' =
        ([Call Levene], Inr True)"
    by (simp add: lib1_def self0_def fixed_library_def)
  have r3: "snd (hasEqualVariance lib0 self0 [[1, 2, 3], [4, 5, 6]] ''bartlett'') = Inr False"
    by (simp add: run_defs lib0_def self0_def)
  have r4: "bartlett lib0 [[1, 2, 3], [4, 5, 6]] = Some (Fin 0.01)"
    by (simp add: lib0_def fixed_library_def)
  from n1 n2 r1 neq r2 r3 r4 show ?thesis
    by blast
qed

section \<open>ANOVA and the normality of its samples\<close>

lemma snd_ANOVA_normality_Cons:
  "snd (ANOVA_normality L self clt (f # fs)) =
     (case snd (isNormal L self f) of
        Inl e \<Rightarrow> Inl e
      | Inr normal \<Rightarrow>
          if normal then snd (ANOVA_normality L self clt fs)
          else if \<not> clt then Inl (ValueError ''Sample is not Normally distributed'')
          else if length f \<le> 30
          then Inl (ValueError ''Unable to apply CLT for feature size < 30'')
          else snd (ANOVA_normality L self clt fs))"
  by (simp add: snd_and_then split: sum.split)

lemma ANOVA_normality_total_error:
  assumes "\<forall>g\<in>set fs. \<exists>b. snd (isNormal L self g) = Inr b"
      and "snd (ANOVA_normality L self clt fs) = Inl e"
  shows "\<exists>m. e = ValueError m"
  using assms
  by (induction fs)
    (auto simp: snd_ANOVA_normality_Cons simp del: ANOVA_normality.simps(2)
      split: sum.splits if_splits)

lemma ANOVA_normality_pass:
  assumes "clt"
      and "\<forall>g\<in>set fs. snd (isNormal L self g) = Inr True
                     \<or> (snd (isNormal L self g) = Inr False \<and> length g > 30)"
  shows "snd (ANOVA_normality L self clt fs) = Inr ()"
  using assms
  by (induction fs)
    (auto simp: snd_ANOVA_normality_Cons simp del: ANOVA_normality.simps(2)
      split: sum.splits if_splits)

lemma snd_ANOVA_Cons:
  "snd (ANOVA L self (first # rest) clt) =
     snd (and_then (ANOVA_normality L self clt (first # rest)) (\<lambda>_.
          and_then (hasEqualVariance L self (first # rest) ''bartlett'') (\<lambda>equal_var.
          and_then (call FOneway (f_oneway L (first # rest))) (\<lambda>p_value.
          checkSignificance self p_value))))"
  by (simp add: ANOVA_def snd_and_then del: ANOVA_normality.simps(2))

lemma snd_ANOVA_cases:
  "snd (ANOVA L self (first # rest) clt) =
     (case snd (ANOVA_normality L self clt (first # rest)) of
        Inl e \<Rightarrow> Inl e
      | Inr u \<Rightarrow>
         (case snd (hasEqualVariance L self (first # rest) ''bartlett'') of
            Inl e \<Rightarrow> Inl e
          | Inr equal_var \<Rightarrow>
              snd (and_then (call FOneway (f_oneway L (first # rest)))
                    (checkSignificance self))))"
  unfolding snd_ANOVA_Cons
  by (simp add: snd_and_then del: ANOVA_normality.simps(2) split: sum.split)

lemma hasEqualVariance_bartlett_not_normal:
  assumes "f \<in> set fs" and "snd (isNormal L self f) = Inr False"
  shows "\<exists>e. snd (hasEqualVariance L self fs ''bartlett'') = Inl e"
proof -
  have "\<not> (\<forall>g\<in>set fs. snd (isNormal L self g) = Inr True)"
  proof
    assume "\<forall>g\<in>set fs. snd (isNormal L self g) = Inr True"
    with assms(1) have "snd (isNormal L self f) = Inr True" by blast
    with assms(2) show False by simp
  qed
  then have "snd (any_not_normal L self fs) \<noteq> Inr False"
    by (simp only: any_not_normal_False_iff not_False_eq_True)
  then show ?thesis
    by (cases "snd (any_not_normal L self fs)")
      (auto simp: snd_hasEqualVariance_bartlett)
qed

lemma hasEqualVariance_bartlett_total:
  assumes "f \<in> set fs" and "snd (isNormal L self f) = Inr False"
      and "\<forall>g\<in>set fs. \<exists>b. snd (isNormal L self g) = Inr b"
  shows "snd (hasEqualVariance L self fs ''bartlett'') =
           Inl (ValueError ''Bartlett's test requires normality.'')"
proof -
  from assms have "snd (any_not_normal L self fs) = Inr True"
    using any_not_normal_total_iff [of fs L self] by blast
  then show ?thesis
    by (simp add: snd_hasEqualVariance_bartlett)
qed

text \<open>
  Claim C10. When some sample fails \<open>isNormal\<close>, \<open>ANOVA\<close> never returns a result,
  whatever \<open>clt\<close> is: either its own normality loop raises, or the variance check with
  method \<open>bartlett\<close> tests the samples again and raises. When \<open>isNormal\<close> returns a
  verdict on every sample the error is a ValueError; and with \<open>clt\<close>, when every
  sample that is not normal has more than 30 values, the loop lets all samples pass
  and the error is the one of the Bartlett check.
\<close>

theorem ANOVA_not_normal_never_returns:
  assumes "f \<in> set features" and "snd (isNormal L self f) = Inr False"
  shows "(\<exists>e. snd (ANOVA L self features clt) = Inl e)
    \<and> ((\<forall>g\<in>set features. \<exists>b. snd (isNormal L self g) = Inr b) \<longrightarrow>
         (\<exists>m. snd (ANOVA L self features clt) = Inl (ValueError m)))
    \<and> (clt \<and> (\<forall>g\<in>set features. snd (isNormal L self g) = Inr True
                  \<or> (snd (isNormal L self g) = Inr False \<and> length g > 30)) \<longrightarrow>
         snd (ANOVA L self features clt) =
           Inl (ValueError ''Bartlett's test requires normality.''))"
proof -
  from assms(1) obtain first rest where fs: "features = first # rest"
    by (cases features) auto
  note bart = hasEqualVariance_bartlett_not_normal [OF assms, of]
  have a: "\<exists>e. snd (ANOVA L self features clt) = Inl e"
    using bart unfolding fs snd_ANOVA_cases
    by (auto split: sum.split)
  have b: "(\<forall>g\<in>set features. \<exists>b. snd (isNormal L self g) = Inr b) \<longrightarrow>
         (\<exists>m. snd (ANOVA L self features clt) = Inl (ValueError m))"
  proof
    assume tot: "\<forall>g\<in>set features. \<exists>b. snd (isNormal L self g) = Inr b"
    show "\<exists>m. snd (ANOVA L self features clt) = Inl (ValueError m)"
    proof (cases "snd (ANOVA_normality L self clt features)")
      case (Inl e)
      with ANOVA_normality_total_error [OF tot Inl] show ?thesis
        unfolding fs snd_ANOVA_cases by auto
    next
      case (Inr u)
      with hasEqualVariance_bartlett_total [OF assms tot] show ?thesis
        unfolding fs snd_ANOVA_cases by auto
    qed
  qed
  have c: "clt \<and> (\<forall>g\<in>set features. snd (isNormal L self g) = Inr True
                  \<or> (snd (isNormal L self g) = Inr False \<and> length g > 30)) \<longrightarrow>
         snd (ANOVA L self features clt) =
           Inl (ValueError ''Bartlett's test requires normality.'')"
  proof
    assume h: "clt \<and> (\<forall>g\<in>set features. snd (isNormal L self g) = Inr True
                  \<or> (snd (isNormal L self g) = Inr False \<and> length g > 30))"
    then have pass: "snd (ANOVA_normality L self clt features) = Inr ()"
      using ANOVA_normality_pass [of clt features L self] by blast
    from h have tot: "\<forall>g\<in>set features. \<exists>b. snd (isNormal L self g) = Inr b"
      by blast
    from pass hasEqualVariance_bartlett_total [OF assms tot] show
      "snd (ANOVA L self features clt) =
           Inl (ValueError ''Bartlett's test requires normality.'')"
      unfolding fs snd_ANOVA_cases by simp
  qed
  from a b c show ?thesis by blast
qed

theorem ANOVA_not_normal_never_returns_witness:
  "replicate 50 1 \<in> set [replicate 50 (1 :: real), replicate 50 2]
   \<and> snd (isNormal lib1 self0 (replicate 50 1)) = Inr False
   \<and> snd (ANOVA lib1 self0 [replicate 50 1, replicate 50 2] True) =
        Inl (ValueError ''Bartlett's test requires normality.'')
   \<and> snd (ANOVA lib1 self0 [replicate 50 1, replicate 50 2] False) =
        Inl (ValueError ''Sample is not Normally distributed'')"
proof -
  have m: "replicate 50 1 \<in> set [replicate 50 (1 :: real), replicate 50 2]"
    by simp
  have n: "snd (isNormal lib1 self0 (replicate 50 (1 :: real))) = Inr False"
    by (simp add: run_defs lib1_def self0_def)
  have big: "\<forall>g\<in>set [replicate 50 (1 :: real), replicate 50 2].
               snd (isNormal lib1 self0 g) = Inr True
               \<or> (snd (isNormal lib1 self0 g) = Inr False \<and> length g > 30)"
    by (simp add: run_defs lib1_def self0_def)
  from ANOVA_not_normal_never_returns [OF m n, of True] big
  have r1: "snd (ANOVA lib1 self0 [replicate 50 1, replicate 50 2] True) =
        Inl (ValueError ''Bartlett's test requires normality.'')"
    by blast
  have r2: "snd (ANOVA lib1 self0 [replicate 50 1, replicate 50 2] False) =
        Inl (ValueError ''Sample is not Normally distributed'')"
    by (simp add: run_defs lib1_def self0_def)
  from m n r1 r2 show ?thesis by blast
qed

section \<open>The preconditions of the Pearson correlation\<close>

lemma pearson_unequal:
  "length f1 \<noteq> length f2 \<Longrightarrow>
   pearsonCorrelation L self f1 f2 =
     ([], Inl (ValueError (''Sample lenghts are not equal.'' @ [CHR 0x0A]
                           @ ''Try using downsampling methods.'')))"
  by (simp add: pearsonCorrelation_def raise_def)

lemma pearson_first_zero:
  "length f1 = length f2 \<Longrightarrow> np_var L f1 = Some (Fin 0) \<Longrightarrow>
   pearsonCorrelation L self f1 f2 =
     ([Call NpVar],
      Inl (ValueError (''Variance of feature should not be 0.'' @ [CHR 0x0A]
                       @ ''Try using Spearman Correlation instead.'')))"
  by (simp add: pearsonCorrelation_def py_or_def call_def ret_def raise_def)

lemma pearson_second_zero:
  "length f1 = length f2 \<Longrightarrow> np_var L f1 = Some v1 \<Longrightarrow> \<not> float_eq v1 (Fin 0) \<Longrightarrow>
   np_var L f2 = Some (Fin 0) \<Longrightarrow>
   pearsonCorrelation L self f1 f2 =
     ([Call NpVar, Call NpVar],
      Inl (ValueError (''Variance of feature should not be 0.'' @ [CHR 0x0A]
                       @ ''Try using Spearman Correlation instead.'')))"
  by (simp add: pearsonCorrelation_def py_or_def call_def ret_def raise_def)

lemma snd_either_not_normal:
  "snd (py_or (py_not (isNormal L self f1)) (py_not (isNormal L self f2))) =
     (case snd (isNormal L self f1) of
        Inl e \<Rightarrow> Inl e
      | Inr n1 \<Rightarrow>
          if \<not> n1 then Inr True
          else (case snd (isNormal L self f2) of
                  Inl e \<Rightarrow> Inl e
                | Inr n2 \<Rightarrow> Inr (\<not> n2)))"
  by (simp add: py_or_def py_not_def snd_and_then split: sum.split)

lemma pearson_not_normal:
  assumes "length f1 = length f2"
      and "np_var L f1 = Some v1" and "np_var L f2 = Some v2"
      and "\<not> float_eq v1 (Fin 0)" and "\<not> float_eq v2 (Fin 0)"
      and "snd (isNormal L self f1) = Inr False
           \<or> (snd (isNormal L self f1) = Inr True \<and> snd (isNormal L self f2) = Inr False)"
  shows "snd (pearsonCorrelation L self f1 f2) =
           Inl (ValueError ''Samples are not normally distributed.'')"
proof -
  from assms(6)
  have nn: "snd (py_or (py_not (isNormal L self f1)) (py_not (isNormal L self f2))) = Inr True"
    by (auto simp: snd_either_not_normal)
  have var: "py_or (and_then (call NpVar (np_var L f1)) (\<lambda>v. ret (float_eq v (Fin 0))))
                   (and_then (call NpVar (np_var L f2)) (\<lambda>v. ret (float_eq v (Fin 0))))
             = ([Call NpVar, Call NpVar], Inr False)"
    using assms(2-5) by (simp add: py_or_def call_def ret_def)
  show ?thesis
    unfolding pearsonCorrelation_def var
    using assms(1) nn by (simp add: snd_and_then)
qed

text \<open>
  The order of the checks. \<open>pearsonCorrelation\<close> checks the lengths first (on unequal
  lengths it raises before any library call), then the variances, the first sample
  before the second, and raises on a variance that compares equal to 0 before any
  normality test is called (the only events are the variance calls), and last the
  normality. So whenever the variance of one sample is computed as exactly zero, the
  operation raises a ValueError whatever the other sample holds.
\<close>

theorem pearsonCorrelation_precondition_order:
  "(length f1 \<noteq> length f2 \<longrightarrow>
      pearsonCorrelation L self f1 f2 =
        ([], Inl (ValueError (''Sample lenghts are not equal.'' @ [CHR 0x0A]
                              @ ''Try using downsampling methods.''))))
   \<and> (length f1 = length f2 \<and> np_var L f1 = Some (Fin 0) \<longrightarrow>
      pearsonCorrelation L self f1 f2 =
        ([Call NpVar],
         Inl (ValueError (''Variance of feature should not be 0.'' @ [CHR 0x0A]
                          @ ''Try using Spearman Correlation instead.''))))
   \<and> (length f1 = length f2 \<and> np_var L f1 = Some v1 \<and> \<not> float_eq v1 (Fin 0)
        \<and> np_var L f2 = Some (Fin 0) \<longrightarrow>
      pearsonCorrelation L self f1 f2 =
        ([Call NpVar, Call NpVar],
         Inl (ValueError (''Variance of feature should not be 0.'' @ [CHR 0x0A]
                          @ ''Try using Spearman Correlation instead.''))))
   \<and> (np_var L f1 = Some (Fin 0) \<or> (np_var L f1 = Some v1 \<and> np_var L f2 = Some (Fin 0)) \<longrightarrow>
      (\<exists>m. snd (pearsonCorrelation L self f1 f2) = Inl (ValueError m)))
   \<and> (length f1 = length f2 \<and> np_var L f1 = Some v1 \<and> np_var L f2 = Some v2
        \<and> \<not> float_eq v1 (Fin 0) \<and> \<not> float_eq v2 (Fin 0)
        \<and> (snd (isNormal L self f1) = Inr False
            \<or> (snd (isNormal L self f1) = Inr True \<and> snd (isNormal L self f2) = Inr False))
      \<longrightarrow> snd (pearsonCorrelation L self f1 f2) =
            Inl (ValueError ''Samples are not normally distributed.''))"
proof -
  have d: "np_var L f1 = Some (Fin 0) \<or> (np_var L f1 = Some v1 \<and> np_var L f2 = Some (Fin 0)) \<longrightarrow>
      (\<exists>m. snd (pearsonCorrelation L self f1 f2) = Inl (ValueError m))"
  proof
    assume h: "np_var L f1 = Some (Fin 0) \<or> (np_var L f1 = Some v1 \<and> np_var L f2 = Some (Fin 0))"
    show "\<exists>m. snd (pearsonCorrelation L self f1 f2) = Inl (ValueError m)"
    proof (cases "length f1 = length f2")
      case False
      then show ?thesis by (simp add: pearson_unequal)
    next
      case True
      show ?thesis
      proof (cases "np_var L f1 = Some (Fin 0)")
        case z: True
        with True show ?thesis by (simp add: pearson_first_zero)
      next
        case nz: False
        with h have v: "np_var L f1 = Some v1" "np_var L f2 = Some (Fin 0)" by auto
        from nz v(1) have "\<not> float_eq v1 (Fin 0)" by (cases v1) auto
        with True v show ?thesis by (simp add: pearson_second_zero)
      qed
    qed
  qed
  show ?thesis
    using pearson_unequal [of f1 f2 L self] pearson_first_zero [of f1 f2 L self]
      pearson_second_zero [of f1 f2 L v1 self] d
      pearson_not_normal [of f1 f2 L v1 v2 self]
    by blast
qed

theorem pearsonCorrelation_precondition_order_witness:
  "length [1, 2, 3 :: real] \<noteq> length [4, 5 :: real]
   \<and> pearsonCorrelation lib1 self0 [1, 2, 3] [4, 5] =
       ([], Inl (ValueError (''Sample lenghts are not equal.'' @ [CHR 0x0A]
                             @ ''Try using downsampling methods.'')))
   \<and> length [7, 7, 7 :: real] = length [1, 2, 3 :: real]
   \<and> np_var lib1 [7, 7, 7] = Some (Fin 0)
   \<and> pearsonCorrelation lib1 self0 [7, 7, 7] [1, 2, 3] =
       ([Call NpVar],
        Inl (ValueError (''Variance of feature should not be 0.'' @ [CHR 0x0A]
                         @ ''Try using Spearman Correlation instead.'')))
   \<and> np_var lib2 [1, 2, 3] = Some (Fin 1) \<and> \<not> float_eq (Fin 1) (Fin 0)
   \<and> snd (isNormal lib2 self0 [1, 2, 3]) = Inr False
   \<and> snd (pearsonCorrelation lib2 self0 [1, 2, 3] [4, 5, 6]) =
       Inl (ValueError ''Samples are not normally distributed.'')"
proof -
  have l1: "length [1, 2, 3 :: real] \<noteq> length [4, 5 :: real]" by simp
  have l2: "length [7, 7, 7 :: real] = length [1, 2, 3 :: real]" by simp
  have l3: "length [1, 2, 3 :: real] = length [4, 5, 6 :: real]" by simp
  have z: "np_var lib1 [7, 7, 7] = Some (Fin 0)"
    by (simp add: lib1_def fixed_library_def)
  have v1: "np_var lib2 [1, 2, 3] = Some (Fin 1)"
    by (simp add: lib2_def fixed_library_def)
  have v2: "np_var lib2 [4, 5, 6] = Some (Fin 1)"
    by (simp add: lib2_def fixed_library_def)
  have nz: "\<not> float_eq (Fin 1) (Fin 0)" by simp
  have nn: "snd (isNormal lib2 self0 [1, 2, 3]) = Inr False"
    by (simp add: run_defs lib2_def self0_def)
  note r1 = pearsonCorrelation_precondition_order
    [of "[1, 2, 3]" "[4, 5]" lib1 self0 "Fin 0" "Fin 0"]
  note r2 = pearsonCorrelation_precondition_order
    [of "[7, 7, 7]" "[1, 2, 3]" lib1 self0 "Fin 0" "Fin 0"]
  note r3 = pearsonCorrelation_precondition_order
    [of "[1, 2, 3]" "[4, 5, 6]" lib2 self0 "Fin 1" "Fin 1"]
  from r1 l1 have a: "pearsonCorrelation lib1 self0 [1, 2, 3] [4, 5] =
       ([], Inl (ValueError (''Sample lenghts are not equal.'' @ [CHR 0x0A]
                             @ ''Try using downsampling methods.'')))"
    by blast
  from r2 l2 z have b: "pearsonCorrelation lib1 self0 [7, 7, 7] [1, 2, 3] =
       ([Call NpVar],
        Inl (ValueError (''Variance of feature should not be 0.'' @ [CHR 0x0A]
                         @ ''Try using Spearman Correlation instead.'')))"
    by blast
  from r3 l3 v1 v2 nz nn have c: "snd (pearsonCorrelation lib2 self0 [1, 2, 3] [4, 5, 6]) =
       Inl (ValueError ''Samples are not normally distributed.'')"
    by blast
  from l1 a l2 z b v1 nz nn c show ?thesis by blast
qed

text \<open>
  Claim C7. A sample of zero variance, a constant sequence for one, is to make
  \<open>pearsonCorrelation\<close> raise a ValueError whatever the other sample holds; the
  comment of the check says of the variance that it should not be 0. The check compares
  the computed variance with 0 exactly, and the variance of the constant sample
  \<open>[0.1, 0.1, 0.1]\<close> is computed as about 2.9e-34. On this sample and \<open>[1, 2, 3]\<close> the
  operation therefore raises nothing: both variances are computed, both normality
  tests and the correlation test are called, and the verdict on the p-value NaN is
  returned.
\<close>

theorem pearsonCorrelation_constant_sample:
  "pearsonCorrelation lib_rounding self0 [0.1, 0.1, 0.1] [1, 2, 3] =
     ([Call NpVar, Call NpVar, Call Shapiro, Call Shapiro, Call PearsonR,
       Print (''Not enough evidence to reject Null Hypotheses.'' @ [CHR 0x0A]
              @ ''There is no significance difference.'')],
      Inr (False, NaN))"
  by (simp add: run_defs lib_rounding_def self0_def)

section \<open>The signed-rank test on equal samples\<close>

lemma snd_both_normal:
  "snd (py_and (isNormal L self f1) (isNormal L self f2)) =
     (case snd (isNormal L self f1) of
        Inl e \<Rightarrow> Inl e
      | Inr n1 \<Rightarrow> if n1 then snd (isNormal L self f2) else Inr False)"
  by (simp add: py_and_def snd_and_then split: sum.split)

lemma snd_wilcoxon_equal_length:
  "length f1 = length f2 \<Longrightarrow>
   snd (wilcoxonSignedRanktest L self f1 f2) =
     (case snd (py_and (isNormal L self f1) (isNormal L self f2)) of
        Inl e \<Rightarrow> Inl e
      | Inr normal \<Rightarrow>
          (case wilcoxon L f1 f2 of
             None \<Rightarrow> Inl (LibraryFailure Wilcoxon)
           | Some p \<Rightarrow> Inr (float_lt p (significance_level self), p)))"
  by (simp add: wilcoxonSignedRanktest_def Let_def snd_and_then snd_checkSignificance
      split: sum.split option.split)

text \<open>
  What the class does around the signed-rank test. On samples of different lengths
  \<open>wilcoxonSignedRanktest\<close> raises a ValueError before any library call. On samples of
  equal length, equal samples included, it has no case of its own: once the normality
  checks have returned, the result is the verdict on whatever p-value the library's
  signed-rank test reports, and a failure of that test is passed on. The result is
  \<open>(False, 1.0)\<close> when the library reports 1.0 and 1.0 is not below the level. Which
  p-value the test reports on two equal samples is decided in the library.
\<close>

theorem wilcoxonSignedRanktest_delegates:
  "(length f1 \<noteq> length f2 \<longrightarrow>
      wilcoxonSignedRanktest L self f1 f2 =
        ([], Inl (ValueError (''Sample sizes are different.'' @ [CHR 0x0A]
                              @ ''Try using samples with same sizes''))))
   \<and> (length f1 = length f2
       \<and> (snd (isNormal L self f1) = Inr False
          \<or> (snd (isNormal L self f1) = Inr True \<and> snd (isNormal L self f2) = Inr n2)) \<longrightarrow>
      snd (wilcoxonSignedRanktest L self f1 f2) =
        (case wilcoxon L f1 f2 of
           None \<Rightarrow> Inl (LibraryFailure Wilcoxon)
         | Some p \<Rightarrow> Inr (float_lt p (significance_level self), p)))
   \<and> (snd (isNormal L self f) = Inr n \<and> wilcoxon L f f = Some (Fin 1)
       \<and> \<not> float_lt (Fin 1) (significance_level self) \<longrightarrow>
      snd (wilcoxonSignedRanktest L self f f) = Inr (False, Fin 1))"
proof -
  have a: "length f1 \<noteq> length f2 \<longrightarrow>
      wilcoxonSignedRanktest L self f1 f2 =
        ([], Inl (ValueError (''Sample sizes are different.'' @ [CHR 0x0A]
                              @ ''Try using samples with same sizes'')))"
    by (simp add: wilcoxonSignedRanktest_def Let_def raise_def)
  have b: "length f1 = length f2
       \<and> (snd (isNormal L self f1) = Inr False
          \<or> (snd (isNormal L self f1) = Inr True \<and> snd (isNormal L self f2) = Inr n2)) \<longrightarrow>
      snd (wilcoxonSignedRanktest L self f1 f2) =
        (case wilcoxon L f1 f2 of
           None \<Rightarrow> Inl (LibraryFailure Wilcoxon)
         | Some p \<Rightarrow> Inr (float_lt p (significance_level self), p))"
    by (auto simp: snd_wilcoxon_equal_length snd_both_normal)
  have c: "snd (isNormal L self f) = Inr n \<and> wilcoxon L f f = Some (Fin 1)
       \<and> \<not> float_lt (Fin 1) (significance_level self) \<longrightarrow>
      snd (wilcoxonSignedRanktest L self f f) = Inr (False, Fin 1)"
    by (auto simp: snd_wilcoxon_equal_length snd_both_normal)
  from a b c show ?thesis by blast
qed

theorem wilcoxonSignedRanktest_delegates_witness:
  "length [1, 2, 3 :: real] \<noteq> length [1, 2 :: real]
   \<and> wilcoxonSignedRanktest lib0 self0 [1, 2, 3] [1, 2] =
        ([], Inl (ValueError (''Sample sizes are different.'' @ [CHR 0x0A]
                              @ ''Try using samples with same sizes'')))
   \<and> snd (isNormal lib0 self0 [1, 2, 3]) = Inr True
   \<and> wilcoxon lib0 [1, 2, 3] [1, 2, 3] = Some (Fin 0.01)
   \<and> snd (wilcoxonSignedRanktest lib0 self0 [1, 2, 3] [1, 2, 3]) = Inr (True, Fin 0.01)
   \<and> wilcoxon (fixed_library (Fin 0.5) (Fin 1) (Fin 1) []) [1, 2, 3 :: real] [1, 2, 3]
       = Some (Fin 1)
   \<and> \<not> float_lt (Fin 1) (significance_level self0)
   \<and> snd (wilcoxonSignedRanktest (fixed_library (Fin 0.5) (Fin 1) (Fin 1) []) self0
            [1, 2, 3 :: real] [1, 2, 3]) = Inr (False, Fin 1)"
proof -
  have l1: "length [1, 2, 3 :: real] \<noteq> length [1, 2 :: real]" by simp
  have l2: "length [1, 2, 3 :: real] = length [1, 2, 3 :: real]" by simp
  have n0: "snd (isNormal lib0 self0 [1, 2, 3]) = Inr True"
    by (simp add: run_defs lib0_def self0_def)
  have w0: "wilcoxon lib0 [1, 2, 3] [1, 2, 3] = Some (Fin 0.01)"
    by (simp add: lib0_def fixed_library_def)
  have n1: "snd (isNormal (fixed_library (Fin 0.5) (Fin 1) (Fin 1) []) self0
                  [1, 2, 3 :: real]) = Inr True"
    by (simp add: run_defs self0_def)
  have w1: "wilcoxon (fixed_library (Fin 0.5) (Fin 1) (Fin 1) []) [1, 2, 3 :: real] [1, 2, 3]
       = Some (Fin 1)"
    by (simp add: fixed_library_def)
  have lv: "\<not> float_lt (Fin 1) (significance_level self0)"
    by (simp add: self0_def)
  note r1 = wilcoxonSignedRanktest_delegates
    [of "[1, 2, 3]" "[1, 2]" lib0 self0 True "[1, 2, 3]" True]
  note r2 = wilcoxonSignedRanktest_delegates
    [of "[1, 2, 3]" "[1, 2, 3]" lib0 self0 True "[1, 2, 3]" True]
  note r3 = wilcoxonSignedRanktest_delegates
    [of "[1, 2, 3]" "[1, 2, 3]" "fixed_library (Fin 0.5) (Fin 1) (Fin 1) []" self0 True
        "[1, 2, 3]" True]
  from r1 l1 have a: "wilcoxonSignedRanktest lib0 self0 [1, 2, 3] [1, 2] =
        ([], Inl (ValueError (''Sample sizes are different.'' @ [CHR 0x0A]
                              @ ''Try using samples with same sizes'')))"
    by blast
  from r2 l2 n0 have "snd (wilcoxonSignedRanktest lib0 self0 [1, 2, 3] [1, 2, 3]) =
        (case wilcoxon lib0 [1, 2, 3] [1, 2, 3] of
           None \<Rightarrow> Inl (LibraryFailure Wilcoxon)
         | Some p \<Rightarrow> Inr (float_lt p (significance_level self0), p))"
    by blast
  then have b: "snd (wilcoxonSignedRanktest lib0 self0 [1, 2, 3] [1, 2, 3]) =
      Inr (True, Fin 0.01)"
    by (simp add: w0 self0_def)
  from r3 n1 w1 lv
  have c: "snd (wilcoxonSignedRanktest (fixed_library (Fin 0.5) (Fin 1) (Fin 1) []) self0
            [1, 2, 3 :: real] [1, 2, 3]) = Inr (False, Fin 1)"
    by blast
  from l1 a n0 w0 b w1 lv c show ?thesis by blast
qed

section \<open>Events of the precondition checks\<close>

lemma avoids_and_then:
  "avoids P m \<Longrightarrow> (\<And>x. avoids P (f x)) \<Longrightarrow> avoids P (and_then m f)"
  by (cases "snd m") (auto simp: avoids_def fst_and_then)

lemma avoids_ret: "avoids P (ret x)"
  by (simp add: avoids_def)

lemma avoids_raise: "avoids P (raise e)"
  by (simp add: avoids_def)

lemma avoids_call: "\<not> P (Call fn) \<Longrightarrow> avoids P (call fn r)"
  by (simp add: avoids_def)

lemma avoids_emit: "\<not> P ev \<Longrightarrow> avoids P (emit ev)"
  by (simp add: avoids_def)

lemma avoids_if: "avoids P a \<Longrightarrow> avoids P b \<Longrightarrow> avoids P (if c then a else b)"
  by simp

lemmas avoids_intros =
  avoids_and_then avoids_ret avoids_raise avoids_call avoids_emit avoids_if

lemma avoids_isNormal:
  assumes "\<not> P (Call NpMean)" "\<not> P (Call NpStd)" "\<not> P (Call KsTest)" "\<not> P (Call Shapiro)"
  shows "avoids P (isNormal L self f)"
  unfolding isNormal_def by (intro avoids_intros assms)

lemma avoids_any_not_normal:
  assumes "\<not> P (Call NpMean)" "\<not> P (Call NpStd)" "\<not> P (Call KsTest)" "\<not> P (Call Shapiro)"
  shows "avoids P (any_not_normal L self fs)"
proof (induction fs)
  case Nil
  show ?case by (simp add: avoids_ret)
next
  case (Cons f fs)
  show ?case
    unfolding any_not_normal.simps
    by (intro avoids_and_then avoids_if avoids_ret avoids_isNormal assms Cons.IH)
qed

lemma avoids_ANOVA_normality:
  assumes "\<not> P (Call NpMean)" "\<not> P (Call NpStd)" "\<not> P (Call KsTest)" "\<not> P (Call Shapiro)"
  shows "avoids P (ANOVA_normality L self clt fs)"
proof (induction fs)
  case Nil
  show ?case by (simp add: avoids_ret)
next
  case (Cons f fs)
  show ?case
    unfolding ANOVA_normality.simps
    by (intro avoids_and_then avoids_if avoids_ret avoids_raise avoids_isNormal assms Cons.IH)
qed

lemma avoids_either_not_normal:
  assumes "\<not> P (Call NpMean)" "\<not> P (Call NpStd)" "\<not> P (Call KsTest)" "\<not> P (Call Shapiro)"
  shows "avoids P (py_or (py_not (isNormal L self f1)) (py_not (isNormal L self f2)))"
  unfolding py_or_def py_not_def
  by (intro avoids_and_then avoids_if avoids_ret avoids_isNormal assms)

lemma avoids_both_normal:
  assumes "\<not> P (Call NpMean)" "\<not> P (Call NpStd)" "\<not> P (Call KsTest)" "\<not> P (Call Shapiro)"
  shows "avoids P (py_and (isNormal L self f1) (isNormal L self f2))"
  unfolding py_and_def
  by (intro avoids_and_then avoids_if avoids_ret avoids_isNormal assms)

lemma avoids_hasEqualVariance:
  assumes "\<not> P (Call NpMean)" "\<not> P (Call NpStd)" "\<not> P (Call KsTest)" "\<not> P (Call Shapiro)"
      and "\<not> P (Call Bartlett)" "\<not> P (Call Levene)"
  shows "avoids P (hasEqualVariance L self fs method)"
  unfolding hasEqualVariance_def
  by (intro avoids_and_then avoids_if avoids_ret avoids_raise avoids_call
      avoids_any_not_normal assms)

section \<open>Errors and the statistic of the test\<close>

lemma raised_before_and_then:
  assumes "avoids (\<lambda>e. e = Call fn) m" and "\<And>x. raised_before fn (f x)"
  shows "raised_before fn (and_then m f)"
proof (cases "snd m")
  case (Inl e)
  from assms(1) have "Call fn \<notin> set (fst m)"
    by (auto simp: avoids_def list_all_iff)
  with Inl show ?thesis
    by (simp add: raised_before_def fst_and_then snd_and_then split: error.split)
next
  case (Inr x)
  from assms(1) have "Call fn \<notin> set (fst m)"
    by (auto simp: avoids_def list_all_iff)
  with Inr assms(2) [of x] show ?thesis
    by (auto simp: raised_before_def fst_and_then snd_and_then
        split: sum.splits error.splits)
qed

lemma raised_before_handover:
  assumes "raised_before fn m" and "\<And>x msg. snd (f x) \<noteq> Inl (ValueError msg)"
  shows "raised_before fn (and_then m f)"
proof (cases "snd m")
  case (Inl e)
  with assms(1) show ?thesis
    by (simp add: raised_before_def fst_and_then snd_and_then split: error.splits)
next
  case (Inr x)
  with assms(2) [of x] show ?thesis
    by (auto simp: raised_before_def snd_and_then split: sum.splits error.splits)
qed

lemma raised_before_raise: "raised_before fn (raise e)"
  by (simp add: raised_before_def split: error.split)

lemma raised_before_if:
  "raised_before fn a \<Longrightarrow> raised_before fn b \<Longrightarrow> raised_before fn (if c then a else b)"
  by simp

lemma snd_verdict_no_ValueError:
  "snd (and_then (call g r) (checkSignificance self)) \<noteq> Inl (ValueError msg)"
  by (simp add: snd_call_check split: option.split)

lemma raised_before_verdict:
  "raised_before fn (and_then (call g r) (checkSignificance self))"
  using snd_verdict_no_ValueError [of g r self]
  by (auto simp: raised_before_def split: sum.splits error.splits)

lemma raised_before_call: "raised_before fn (call g r)"
  by (cases r) (simp_all add: raised_before_def)

lemmas raised_intros =
  raised_before_verdict raised_before_and_then raised_before_raise raised_before_if
  avoids_isNormal avoids_either_not_normal avoids_both_normal avoids_hasEqualVariance
  avoids_ANOVA_normality avoids_any_not_normal
  avoids_if avoids_raise avoids_ret avoids_emit avoids_call

lemma rb_OneSampleTtest:
  "raised_before Ttest1Samp (OneSampleTtest L self feature meu clt)"
  unfolding OneSampleTtest_def by (intro raised_intros) simp_all

lemma rb_twoSampleTtest:
  "raised_before TtestInd (twoSampleTtest L self f1 f2 clt)"
  unfolding twoSampleTtest_def by (intro raised_intros) simp_all

lemma rb_pairedTtest:
  "raised_before TtestRel (pairedTtest L self f1 f2 clt)"
  unfolding pairedTtest_def by (intro raised_intros) simp_all

lemma rb_hasEqualVariance:
  "raised_before Bartlett (hasEqualVariance L self fs method)"
  unfolding hasEqualVariance_def
proof (rule raised_before_handover)
  show "raised_before Bartlett
     (if method = ''bartlett''
      then and_then (any_not_normal L self fs)
             (\<lambda>bad. if bad then raise (ValueError ''Bartlett's test requires normality.'')
                    else call Bartlett (bartlett L fs))
      else call Levene (levene L fs))"
    by (intro raised_before_if raised_before_and_then raised_before_raise
        raised_before_call avoids_any_not_normal) simp_all
next
  fix x :: pyfloat and msg
  show "snd (ret (float_gt x (significance_level self)) :: bool run) \<noteq> Inl (ValueError msg)"
    by simp
qed

lemma rb_ANOVA_FOneway:
  "raised_before FOneway (ANOVA L self fs clt)"
proof (cases fs)
  case Nil
  then show ?thesis by (simp add: ANOVA_def raised_before_def)
next
  case (Cons first rest)
  show ?thesis
    unfolding ANOVA_def Cons list.case
    unfolding Cons [symmetric]
    by (intro raised_intros) simp_all
qed

lemma rb_ANOVA_Bartlett:
  "raised_before Bartlett (ANOVA L self fs clt)"
proof (cases fs)
  case Nil
  then show ?thesis by (simp add: ANOVA_def raised_before_def)
next
  case (Cons first rest)
  have tail: "raised_before Bartlett
      (and_then (hasEqualVariance L self fs ''bartlett'') (\<lambda>equal_var.
       and_then (call FOneway (f_oneway L fs)) (\<lambda>p_value. checkSignificance self p_value)))"
    by (rule raised_before_handover [OF rb_hasEqualVariance])
      (rule snd_verdict_no_ValueError)
  show ?thesis
    unfolding ANOVA_def Cons list.case
    unfolding Cons [symmetric]
    by (intro raised_before_and_then tail avoids_if avoids_emit avoids_ret
        avoids_ANOVA_normality) simp_all
qed

lemma rb_mannWhitneyUtest:
  "raised_before MannWhitneyU (mannWhitneyUtest L self f1 f2)"
  unfolding mannWhitneyUtest_def Let_def by (intro raised_intros) simp_all

lemma rb_wilcoxonSignedRanktest:
  "raised_before Wilcoxon (wilcoxonSignedRanktest L self f1 f2)"
  unfolding wilcoxonSignedRanktest_def Let_def by (intro raised_intros) simp_all

lemma rb_kruskalWallis:
  "raised_before Kruskal (kruskalWallis L self fs)"
  unfolding kruskalWallis_def by (intro raised_intros)

lemma rb_fisherExacttest:
  "raised_before FisherExact (fisherExacttest L self f1 f2)"
  unfolding fisherExacttest_def by (intro raised_intros) simp_all

lemma rb_pearsonCorrelation:
  "raised_before PearsonR (pearsonCorrelation L self f1 f2)"
  unfolding pearsonCorrelation_def py_or_def [of "and_then (call NpVar (np_var L f1)) _"]
  by (intro raised_intros avoids_and_then) simp_all

lemma rb_spearmanCorrelation:
  "raised_before SpearmanR (spearmanCorrelation L self f1 f2)"
  unfolding spearmanCorrelation_def by (intro raised_intros)

lemma chiSquare_error_after_statistic:
  "snd (chiSquare L self f1 f2) = Inl (ValueError m) \<Longrightarrow>
   fst (chiSquare L self f1 f2) = [Call Crosstab, Call Chi2Contingency]"
  by (cases "crosstab L f1 f2"; cases "chi2_contingency L (the (crosstab L f1 f2))")
    (auto simp: chiSquare_def call_def snd_and_then fst_and_then snd_checkSignificance
      split: if_splits)

text \<open>
  Claim C4, as the code has it. A ValueError of the class is raised before the
  operation's own statistical test is called: the t-tests, the F-test, the rank tests,
  Fisher's test and the correlation tests are never called on a run that ends in a
  ValueError, and the Bartlett test is not called before the ValueError of its
  normality requirement. The normality tests and the variances that the checks
  consult are computed first. \<open>chiSquare\<close> is the exception: its ValueError is raised
  after the contingency table was built and \<open>chi2_contingency\<close> has computed the
  statistic, the p-value and the expected frequencies, and before any verdict.
\<close>

theorem validation_errors_before_test:
  "raised_before Ttest1Samp (OneSampleTtest L self feature meu clt)
   \<and> raised_before TtestInd (twoSampleTtest L self feature1 feature2 clt)
   \<and> raised_before TtestRel (pairedTtest L self feature1 feature2 clt)
   \<and> raised_before FOneway (ANOVA L self features clt)
   \<and> raised_before Bartlett (ANOVA L self features clt)
   \<and> raised_before Bartlett (hasEqualVariance L self features method)
   \<and> raised_before MannWhitneyU (mannWhitneyUtest L self feature1 feature2)
   \<and> raised_before Wilcoxon (wilcoxonSignedRanktest L self feature1 feature2)
   \<and> raised_before Kruskal (kruskalWallis L self features)
   \<and> raised_before FisherExact (fisherExacttest L self feature1 feature2)
   \<and> raised_before PearsonR (pearsonCorrelation L self feature1 feature2)
   \<and> raised_before SpearmanR (spearmanCorrelation L self feature1 feature2)
   \<and> (\<forall>m. snd (chiSquare L self feature1 feature2) = Inl (ValueError m) \<longrightarrow>
          fst (chiSquare L self feature1 feature2) = [Call Crosstab, Call Chi2Contingency])"
  using chiSquare_error_after_statistic [of L self feature1 feature2]
  by (simp only: rb_OneSampleTtest rb_twoSampleTtest rb_pairedTtest rb_ANOVA_FOneway
      rb_ANOVA_Bartlett rb_hasEqualVariance rb_mannWhitneyUtest rb_wilcoxonSignedRanktest
      rb_kruskalWallis rb_fisherExacttest rb_pearsonCorrelation rb_spearmanCorrelation
      simp_thms) blast

theorem validation_errors_before_test_witness:
  "snd (chiSquare lib1 self0 [1, 2] [3, 4]) =
     Inl (ValueError ''Some expected frequencies are too small, Fisher's test is preferred.'')
   \<and> fst (chiSquare lib1 self0 [1, 2] [3, 4]) = [Call Crosstab, Call Chi2Contingency]
   \<and> OneSampleTtest lib1 self0 [1, 2, 3] (Fin 0) False =
       ([Call Shapiro], Inl (ValueError ''Sample is not Normally distributed''))
   \<and> raised_before Ttest1Samp (OneSampleTtest lib1 self0 [1, 2, 3] (Fin 0) False)"
proof -
  have e: "snd (chiSquare lib1 self0 [1, 2] [3, 4]) =
     Inl (ValueError ''Some expected frequencies are too small, Fisher's test is preferred.'')"
    by (simp add: run_defs lib1_def self0_def)
  note r = validation_errors_before_test
    [of lib1 self0 "[1, 2, 3]" "Fin 0" False "[1, 2]" "[3, 4]" "[[1, 2, 3]]" "''levene''"]
  from r e have t: "fst (chiSquare lib1 self0 [1, 2] [3, 4]) = [Call Crosstab, Call Chi2Contingency]"
    by blast
  have o: "OneSampleTtest lib1 self0 [1, 2, 3] (Fin 0) False =
       ([Call Shapiro], Inl (ValueError ''Sample is not Normally distributed''))"
    by (simp add: run_defs lib1_def self0_def)
  from r have b: "raised_before Ttest1Samp (OneSampleTtest lib1 self0 [1, 2, 3] (Fin 0) False)"
    by blast
  from e t o b show ?thesis by blast
qed

text \<open>
  The claim as the specification states it fails for \<open>chiSquare\<close>: on a table whose
  expected frequencies are all 1 the run ends in the ValueError, and
  \<open>chi2_contingency\<close> was called before it.
\<close>

theorem chiSquare_error_before_statistic_counterexample:
  "\<not> raised_before Chi2Contingency (chiSquare lib1 self0 [1, 2] [3, 4])"
  by (simp add: raised_before_def run_defs lib1_def self0_def)

section \<open>Warnings and errors\<close>

lemma avoids_case_prod:
  "(\<And>a b. avoids P (f a b)) \<Longrightarrow> avoids P (case x of (a, b) \<Rightarrow> f a b)"
  by (cases x) simp

lemma avoids_checkSignificance:
  "\<not> P (Print (''Null Hypothesis rejected.'' @ [CHR 0x0A]
              @ ''There is a significance difference.'')) \<Longrightarrow>
   \<not> P (Print (''Not enough evidence to reject Null Hypotheses.'' @ [CHR 0x0A]
              @ ''There is no significance difference.'')) \<Longrightarrow>
   avoids P (checkSignificance self p)"
  by (simp add: checkSignificance_def avoids_def emit_def ret_def)

lemma no_warn_checkSignificance: "avoids is_warn (checkSignificance self p)"
  by (rule avoids_checkSignificance) simp_all

lemma no_warn_verdict: "avoids is_warn (and_then (call g r) (checkSignificance self))"
  by (intro avoids_and_then avoids_call no_warn_checkSignificance) simp

lemmas no_warn_intros =
  no_warn_checkSignificance avoids_and_then avoids_if avoids_raise avoids_ret avoids_call
  avoids_case_prod avoids_isNormal avoids_either_not_normal avoids_both_normal
  avoids_hasEqualVariance avoids_ANOVA_normality avoids_any_not_normal

lemma no_warn_OneSampleTtest: "avoids is_warn (OneSampleTtest L self feature meu clt)"
  unfolding OneSampleTtest_def by (intro no_warn_intros) simp_all

lemma no_warn_twoSampleTtest: "avoids is_warn (twoSampleTtest L self f1 f2 clt)"
  unfolding twoSampleTtest_def by (intro no_warn_intros) simp_all

lemma no_warn_pairedTtest: "avoids is_warn (pairedTtest L self f1 f2 clt)"
  unfolding pairedTtest_def by (intro no_warn_intros) simp_all

lemma no_warn_kruskalWallis: "avoids is_warn (kruskalWallis L self fs)"
  unfolding kruskalWallis_def by (intro no_warn_intros) simp_all

lemma no_warn_chiSquare: "avoids is_warn (chiSquare L self f1 f2)"
  unfolding chiSquare_def by (intro no_warn_intros) simp_all

lemma no_warn_pearsonCorrelation: "avoids is_warn (pearsonCorrelation L self f1 f2)"
  unfolding pearsonCorrelation_def py_or_def [of "and_then (call NpVar (np_var L f1)) _"]
  by (intro no_warn_intros) simp_all

lemma no_warn_spearmanCorrelation: "avoids is_warn (spearmanCorrelation L self f1 f2)"
  unfolding spearmanCorrelation_def by (intro no_warn_intros) simp_all

lemma no_warn_ANOVA_tail:
  "avoids is_warn
     (and_then (ANOVA_normality L self clt fs) (\<lambda>_.
      and_then (hasEqualVariance L self fs ''bartlett'') (\<lambda>equal_var.
      and_then (call FOneway (f_oneway L fs)) (\<lambda>p_value.
      checkSignificance self p_value))))"
  by (intro no_warn_intros) simp_all

lemma wc_no_warn: "list_all (\<lambda>e. \<not> is_warn e) t \<Longrightarrow> warn_continues t"
  by (induction t rule: warn_continues.induct) simp_all

lemma wc_avoids: "avoids is_warn r \<Longrightarrow> warn_continues (fst r)"
  by (simp add: avoids_def wc_no_warn)

lemma swc_append: "starts_with_call a \<Longrightarrow> starts_with_call (a @ b)"
  by (cases a) (simp_all add: starts_with_call_def)

lemma wc_append: "warn_continues a \<Longrightarrow> warn_continues b \<Longrightarrow> warn_continues (a @ b)"
  by (induction a rule: warn_continues.induct) (simp_all add: swc_append)

lemma wc_and_then:
  "warn_continues (fst m) \<Longrightarrow> (\<And>x. warn_continues (fst (f x))) \<Longrightarrow>
   warn_continues (fst (and_then m f))"
  by (cases "snd m") (simp_all add: fst_and_then wc_append)

lemma swc_and_then: "starts_with_call (fst m) \<Longrightarrow> starts_with_call (fst (and_then m f))"
  by (cases "snd m") (simp_all add: fst_and_then swc_append)

lemma swc_call: "starts_with_call (fst (call fn r))"
  by (simp add: starts_with_call_def)

lemma swc_Cons: "starts_with_call (Call c # t)"
  by (simp add: starts_with_call_def)

lemma swc_isNormal: "starts_with_call (fst (isNormal L self f))"
  unfolding isNormal_def
  by (rule swc_and_then) (simp add: swc_and_then swc_Cons)

lemma swc_both_normal:
  "starts_with_call (fst (py_and (isNormal L self f1) (isNormal L self f2)))"
  unfolding py_and_def by (rule swc_and_then) (rule swc_isNormal)

lemma swc_ANOVA_normality:
  "fs \<noteq> [] \<Longrightarrow> starts_with_call (fst (ANOVA_normality L self clt fs))"
  by (cases fs) (simp_all add: swc_and_then swc_isNormal)

lemma wc_warn_then:
  assumes "starts_with_call (fst (f ()))" and "warn_continues (fst (f ()))"
  shows "warn_continues (fst (and_then (if c then emit (Warn w) else ret ()) f))"
  using assms by (simp add: emit_def)

lemma ANOVA_Cons:
  assumes "fs \<noteq> []"
  shows "ANOVA L self fs clt =
     and_then
       (if list_ex (\<lambda>feature. length feature \<noteq> length (hd fs)) fs
        then emit (Warn (''Please ensure all the samples are of same length.''
                         @ [CHR 0x0A] @ ''Try downsampling the larger samples.''))
        else ret ()) (\<lambda>_.
     and_then (ANOVA_normality L self clt fs) (\<lambda>_.
     and_then (hasEqualVariance L self fs ''bartlett'') (\<lambda>equal_var.
     and_then (call FOneway (f_oneway L fs)) (\<lambda>p_value.
     checkSignificance self p_value))))"
  using assms by (cases fs) (simp_all add: ANOVA_def)

lemma wc_ANOVA: "warn_continues (fst (ANOVA L self fs clt))"
proof (cases "fs = []")
  case True
  then show ?thesis by (simp add: ANOVA_def)
next
  case False
  show ?thesis
    unfolding ANOVA_Cons [OF False]
    by (rule wc_warn_then)
      (intro swc_and_then swc_ANOVA_normality False, rule wc_avoids [OF no_warn_ANOVA_tail])
qed

lemma wc_mannWhitneyUtest: "warn_continues (fst (mannWhitneyUtest L self f1 f2))"
  unfolding mannWhitneyUtest_def Let_def
proof (rule wc_warn_then)
  show "starts_with_call (fst (and_then (py_and (isNormal L self f1) (isNormal L self f2))
      (\<lambda>normal. and_then
         (if normal then emit (Warn ''Features are normal, Consider using t-test instead'')
          else ret ())
         (\<lambda>_. and_then (call MannWhitneyU (mannwhitneyu L f1 f2)) (checkSignificance self)))))"
    by (intro swc_and_then swc_both_normal)
  show "warn_continues (fst (and_then (py_and (isNormal L self f1) (isNormal L self f2))
      (\<lambda>normal. and_then
         (if normal then emit (Warn ''Features are normal, Consider using t-test instead'')
          else ret ())
         (\<lambda>_. and_then (call MannWhitneyU (mannwhitneyu L f1 f2)) (checkSignificance self)))))"
  proof (rule wc_and_then)
    show "warn_continues (fst (py_and (isNormal L self f1) (isNormal L self f2)))"
      by (rule wc_avoids) (rule avoids_both_normal, simp_all)
  next
    fix normal
    show "warn_continues (fst (and_then
         (if normal then emit (Warn ''Features are normal, Consider using t-test instead'')
          else ret ())
         (\<lambda>_. and_then (call MannWhitneyU (mannwhitneyu L f1 f2)) (checkSignificance self))))"
      by (rule wc_warn_then)
        (intro swc_and_then swc_call, rule wc_avoids [OF no_warn_verdict])
  qed
qed

lemma wc_wilcoxonSignedRanktest:
  "warn_continues (fst (wilcoxonSignedRanktest L self f1 f2))"
proof (cases "length f1 = length f2")
  case False
  then show ?thesis by (simp add: wilcoxonSignedRanktest_def)
next
  case True
  have "warn_continues (fst (and_then (py_and (isNormal L self f1) (isNormal L self f2))
      (\<lambda>normal. and_then
         (if normal
          then emit (Warn ''Features are normal, Consider using Paired sample t-test instead'')
          else ret ())
         (\<lambda>_. and_then (call Wilcoxon (wilcoxon L f1 f2)) (checkSignificance self)))))"
  proof (rule wc_and_then)
    show "warn_continues (fst (py_and (isNormal L self f1) (isNormal L self f2)))"
      by (rule wc_avoids) (rule avoids_both_normal, simp_all)
  next
    fix normal
    show "warn_continues (fst (and_then
         (if normal
          then emit (Warn ''Features are normal, Consider using Paired sample t-test instead'')
          else ret ())
         (\<lambda>_. and_then (call Wilcoxon (wilcoxon L f1 f2)) (checkSignificance self))))"
      by (rule wc_warn_then)
        (intro swc_and_then swc_call, rule wc_avoids [OF no_warn_verdict])
  qed
  with True show ?thesis by (simp add: wilcoxonSignedRanktest_def)
qed

lemma wc_fisherExacttest: "warn_continues (fst (fisherExacttest L self f1 f2))"
  unfolding fisherExacttest_def
proof (rule wc_warn_then)
  show "starts_with_call (fst (and_then (call Crosstab (crosstab L f1 f2))
      (\<lambda>ct. and_then (call FisherExact (fisher_exact L ct)) (checkSignificance self))))"
    by (intro swc_and_then swc_call)
  show "warn_continues (fst (and_then (call Crosstab (crosstab L f1 f2))
      (\<lambda>ct. and_then (call FisherExact (fisher_exact L ct)) (checkSignificance self))))"
    by (rule wc_avoids) (intro avoids_and_then avoids_call no_warn_checkSignificance, simp_all)
qed

text \<open>An error ends the run before the verdict is printed.\<close>

lemma ea_and_then:
  assumes "avoids is_print m" and "\<And>x. error_aborts (f x)"
  shows "error_aborts (and_then m f)"
proof (cases "snd m")
  case (Inl e)
  with assms(1) show ?thesis
    by (simp add: error_aborts_def avoids_def fst_and_then snd_and_then)
next
  case (Inr x)
  with assms(1) assms(2) [of x] show ?thesis
    by (auto simp: error_aborts_def avoids_def fst_and_then snd_and_then split: sum.splits)
qed

lemma ea_checkSignificance: "error_aborts (checkSignificance self p)"
  by (simp add: error_aborts_def snd_checkSignificance)

lemma ea_raise: "error_aborts (raise e)"
  by (simp add: error_aborts_def avoids_def)

lemma ea_if: "error_aborts a \<Longrightarrow> error_aborts b \<Longrightarrow> error_aborts (if c then a else b)"
  by simp

lemma ea_case_prod:
  "(\<And>a b. error_aborts (f a b)) \<Longrightarrow> error_aborts (case x of (a, b) \<Rightarrow> f a b)"
  by (cases x) simp

lemmas ea_intros =
  ea_and_then ea_checkSignificance ea_raise ea_if ea_case_prod
  avoids_and_then avoids_if avoids_raise avoids_ret avoids_call avoids_emit
  avoids_isNormal avoids_either_not_normal avoids_both_normal
  avoids_hasEqualVariance avoids_ANOVA_normality avoids_any_not_normal

lemma ea_OneSampleTtest: "error_aborts (OneSampleTtest L self feature meu clt)"
  unfolding OneSampleTtest_def by (intro ea_intros) simp_all

lemma ea_twoSampleTtest: "error_aborts (twoSampleTtest L self f1 f2 clt)"
  unfolding twoSampleTtest_def by (intro ea_intros) simp_all

lemma ea_pairedTtest: "error_aborts (pairedTtest L self f1 f2 clt)"
  unfolding pairedTtest_def by (intro ea_intros) simp_all

lemma ea_ANOVA: "error_aborts (ANOVA L self fs clt)"
proof (cases "fs = []")
  case True
  then show ?thesis by (simp add: ANOVA_def ea_raise)
next
  case False
  show ?thesis
    unfolding ANOVA_Cons [OF False] by (intro ea_intros) simp_all
qed

lemma ea_mannWhitneyUtest: "error_aborts (mannWhitneyUtest L self f1 f2)"
  unfolding mannWhitneyUtest_def Let_def by (intro ea_intros) simp_all

lemma ea_wilcoxonSignedRanktest: "error_aborts (wilcoxonSignedRanktest L self f1 f2)"
  unfolding wilcoxonSignedRanktest_def Let_def by (intro ea_intros) simp_all

lemma ea_kruskalWallis: "error_aborts (kruskalWallis L self fs)"
  unfolding kruskalWallis_def by (intro ea_intros) simp_all

lemma ea_chiSquare: "error_aborts (chiSquare L self f1 f2)"
  unfolding chiSquare_def by (intro ea_intros) simp_all

lemma ea_fisherExacttest: "error_aborts (fisherExacttest L self f1 f2)"
  unfolding fisherExacttest_def by (intro ea_intros) simp_all

lemma ea_pearsonCorrelation: "error_aborts (pearsonCorrelation L self f1 f2)"
  unfolding pearsonCorrelation_def py_or_def [of "and_then (call NpVar (np_var L f1)) _"]
  by (intro ea_intros) simp_all

lemma ea_spearmanCorrelation: "error_aborts (spearmanCorrelation L self f1 f2)"
  unfolding spearmanCorrelation_def by (intro ea_intros) simp_all

text \<open>The run of \<open>ANOVA\<close> on samples of different sizes.\<close>

lemma differing_pair_differs_from_first:
  assumes "f \<in> set fs" and "g \<in> set fs" and "length f \<noteq> length g"
  shows "fs \<noteq> []" and "list_ex (\<lambda>feature. length feature \<noteq> length (hd fs)) fs"
proof -
  from assms(1) show "fs \<noteq> []" by auto
  from assms have "length f \<noteq> length (hd fs) \<or> length g \<noteq> length (hd fs)"
    by auto
  with assms(1,2) show "list_ex (\<lambda>feature. length feature \<noteq> length (hd fs)) fs"
    by (auto simp: list_ex_iff)
qed

lemma ANOVA_differing_sizes:
  assumes "f \<in> set fs" and "g \<in> set fs" and "length f \<noteq> length g"
  shows "ANOVA L self fs clt =
     and_then
       (emit (Warn (''Please ensure all the samples are of same length.''
                    @ [CHR 0x0A] @ ''Try downsampling the larger samples.''))) (\<lambda>_.
     and_then (ANOVA_normality L self clt fs) (\<lambda>_.
     and_then (hasEqualVariance L self fs ''bartlett'') (\<lambda>equal_var.
     and_then (call FOneway (f_oneway L fs)) (\<lambda>p_value.
     checkSignificance self p_value))))"
  using differing_pair_differs_from_first [OF assms]
  by (simp add: ANOVA_Cons)

lemma starts_with_call_iff: "starts_with_call t = (\<exists>c tl. t = Call c # tl)"
proof (cases t)
  case Nil
  then show ?thesis by (simp add: starts_with_call_def)
next
  case (Cons e tl)
  then show ?thesis by (cases e) (simp_all add: starts_with_call_def)
qed

lemma no_warn_filter: "avoids is_warn r \<Longrightarrow> filter is_warn (fst r) = []"
  by (simp add: avoids_def filter_empty_conv list_all_iff)

lemma ANOVA_differing_sizes_trace:
  assumes "f \<in> set fs" and "g \<in> set fs" and "length f \<noteq> length g"
  shows "\<exists>c tl. fst (ANOVA L self fs clt) =
           Warn (''Please ensure all the samples are of same length.''
                 @ [CHR 0x0A] @ ''Try downsampling the larger samples.'') # Call c # tl"
    and "length (filter is_warn (fst (ANOVA L self fs clt))) = 1"
proof -
  let ?K = "and_then (ANOVA_normality L self clt fs) (\<lambda>_.
     and_then (hasEqualVariance L self fs ''bartlett'') (\<lambda>equal_var.
     and_then (call FOneway (f_oneway L fs)) (\<lambda>p_value.
     checkSignificance self p_value)))"
  let ?w = "Warn (''Please ensure all the samples are of same length.''
                 @ [CHR 0x0A] @ ''Try downsampling the larger samples.'')"
  have ne: "fs \<noteq> []"
    by (rule differing_pair_differs_from_first(1) [OF assms])
  have run: "fst (ANOVA L self fs clt) = ?w # fst ?K"
    unfolding ANOVA_differing_sizes [OF assms] by (simp add: emit_def)
  have "starts_with_call (fst ?K)"
    by (intro swc_and_then swc_ANOVA_normality ne)
  then obtain c tl where "fst ?K = Call c # tl"
    unfolding starts_with_call_iff by blast
  with run show "\<exists>c tl. fst (ANOVA L self fs clt) = ?w # Call c # tl"
    by simp
  have "filter is_warn (fst ?K) = []"
    by (rule no_warn_filter [OF no_warn_ANOVA_tail])
  with run show "length (filter is_warn (fst (ANOVA L self fs clt))) = 1"
    by simp
qed

text \<open>
  Claim C9. When two of the samples differ in size, \<open>ANOVA\<close> warns once and goes on:
  its run is the warning followed by the run of the rest of the operation (the
  normality rule, the Bartlett test, the F-test and the verdict), the event after the
  warning is a call of the library, and the result is that of the rest of the
  operation. In every test operation each warning is followed at once by a call of the
  library, so no warning ends a run; and a run that ends in an error has printed no
  verdict. \<^verbatim>\<open>warnings.warn\<close> is taken under Python's default filter, which reports the
  warning and returns.
\<close>

theorem ANOVA_warning_not_fatal:
  "(f \<in> set features \<and> g \<in> set features \<and> length f \<noteq> length g \<longrightarrow>
      ANOVA L self features clt =
        and_then
          (emit (Warn (''Please ensure all the samples are of same length.''
                       @ [CHR 0x0A] @ ''Try downsampling the larger samples.''))) (\<lambda>_.
        and_then (ANOVA_normality L self clt features) (\<lambda>_.
        and_then (hasEqualVariance L self features ''bartlett'') (\<lambda>equal_var.
        and_then (call FOneway (f_oneway L features)) (\<lambda>p_value.
        checkSignificance self p_value))))
      \<and> (\<exists>c tl. fst (ANOVA L self features clt) =
            Warn (''Please ensure all the samples are of same length.''
                  @ [CHR 0x0A] @ ''Try downsampling the larger samples.'') # Call c # tl)
      \<and> length (filter is_warn (fst (ANOVA L self features clt))) = 1)
   \<and> warn_continues (fst (OneSampleTtest L self feature meu clt))
   \<and> warn_continues (fst (twoSampleTtest L self feature1 feature2 clt))
   \<and> warn_continues (fst (pairedTtest L self feature1 feature2 clt))
   \<and> warn_continues (fst (ANOVA L self features clt))
   \<and> warn_continues (fst (mannWhitneyUtest L self feature1 feature2))
   \<and> warn_continues (fst (wilcoxonSignedRanktest L self feature1 feature2))
   \<and> warn_continues (fst (kruskalWallis L self features))
   \<and> warn_continues (fst (chiSquare L self feature1 feature2))
   \<and> warn_continues (fst (fisherExacttest L self feature1 feature2))
   \<and> warn_continues (fst (pearsonCorrelation L self feature1 feature2))
   \<and> warn_continues (fst (spearmanCorrelation L self feature1 feature2))
   \<and> error_aborts (OneSampleTtest L self feature meu clt)
   \<and> error_aborts (twoSampleTtest L self feature1 feature2 clt)
   \<and> error_aborts (pairedTtest L self feature1 feature2 clt)
   \<and> error_aborts (ANOVA L self features clt)
   \<and> error_aborts (mannWhitneyUtest L self feature1 feature2)
   \<and> error_aborts (wilcoxonSignedRanktest L self feature1 feature2)
   \<and> error_aborts (kruskalWallis L self features)
   \<and> error_aborts (chiSquare L self feature1 feature2)
   \<and> error_aborts (fisherExacttest L self feature1 feature2)
   \<and> error_aborts (pearsonCorrelation L self feature1 feature2)
   \<and> error_aborts (spearmanCorrelation L self feature1 feature2)"
proof -
  have anova: "f \<in> set features \<and> g \<in> set features \<and> length f \<noteq> length g \<longrightarrow>
      ANOVA L self features clt =
        and_then
          (emit (Warn (''Please ensure all the samples are of same length.''
                       @ [CHR 0x0A] @ ''Try downsampling the larger samples.''))) (\<lambda>_.
        and_then (ANOVA_normality L self clt features) (\<lambda>_.
        and_then (hasEqualVariance L self features ''bartlett'') (\<lambda>equal_var.
        and_then (call FOneway (f_oneway L features)) (\<lambda>p_value.
        checkSignificance self p_value))))
      \<and> (\<exists>c tl. fst (ANOVA L self features clt) =
            Warn (''Please ensure all the samples are of same length.''
                  @ [CHR 0x0A] @ ''Try downsampling the larger samples.'') # Call c # tl)
      \<and> length (filter is_warn (fst (ANOVA L self features clt))) = 1"
    using ANOVA_differing_sizes [of f features g L self clt]
      ANOVA_differing_sizes_trace [of f features g L self clt]
    by blast
  show ?thesis
    by (intro conjI anova wc_ANOVA wc_mannWhitneyUtest wc_wilcoxonSignedRanktest
        wc_fisherExacttest
        wc_avoids [OF no_warn_OneSampleTtest] wc_avoids [OF no_warn_twoSampleTtest]
        wc_avoids [OF no_warn_pairedTtest] wc_avoids [OF no_warn_kruskalWallis]
        wc_avoids [OF no_warn_chiSquare] wc_avoids [OF no_warn_pearsonCorrelation]
        wc_avoids [OF no_warn_spearmanCorrelation]
        ea_OneSampleTtest ea_twoSampleTtest ea_pairedTtest ea_ANOVA ea_mannWhitneyUtest
        ea_wilcoxonSignedRanktest ea_kruskalWallis ea_chiSquare ea_fisherExacttest
        ea_pearsonCorrelation ea_spearmanCorrelation)
qed

theorem ANOVA_warning_not_fatal_witness:
  "ANOVA lib0 self0 [[1, 2, 3], [4, 5]] False =
     ([Warn (''Please ensure all the samples are of same length.''
             @ [CHR 0x0A] @ ''Try downsampling the larger samples.''),
       Call Shapiro, Call Shapiro, Call Shapiro, Call Shapiro, Call Bartlett, Call FOneway,
       Print (''Null Hypothesis rejected.'' @ [CHR 0x0A]
              @ ''There is a significance difference.'')],
      Inr (True, Fin 0.01))
   \<and> length (filter is_warn (fst (ANOVA lib0 self0 [[1, 2, 3], [4, 5]] False))) = 1
   \<and> warn_continues (fst (ANOVA lib0 self0 [[1, 2, 3], [4, 5]] False))
   \<and> ANOVA lib1 self0 [[1, 2, 3], [4, 5]] False =
       ([Warn (''Please ensure all the samples are of same length.''
               @ [CHR 0x0A] @ ''Try downsampling the larger samples.''),
         Call Shapiro],
        Inl (ValueError ''Sample is not Normally distributed''))
   \<and> error_aborts (ANOVA lib1 self0 [[1, 2, 3], [4, 5]] False)"
proof -
  note r0 = ANOVA_warning_not_fatal
    [of "[1, 2, 3]" "[[1, 2, 3], [4, 5]]" "[4, 5]" lib0 self0 False
        "[1, 2, 3]" "Fin 0" "[1, 2, 3]" "[4, 5]"]
  note r1 = ANOVA_warning_not_fatal
    [of "[1, 2, 3]" "[[1, 2, 3], [4, 5]]" "[4, 5]" lib1 self0 False
        "[1, 2, 3]" "Fin 0" "[1, 2, 3]" "[4, 5]"]
  have h: "[1, 2, 3] \<in> set [[1, 2, 3], [4, 5::real]] \<and> [4, 5] \<in> set [[1, 2, 3], [4, 5::real]]
           \<and> length [1, 2, 3::real] \<noteq> length [4, 5::real]"
    by simp
  have a: "ANOVA lib0 self0 [[1, 2, 3], [4, 5]] False =
     ([Warn (''Please ensure all the samples are of same length.''
             @ [CHR 0x0A] @ ''Try downsampling the larger samples.''),
       Call Shapiro, Call Shapiro, Call Shapiro, Call Shapiro, Call Bartlett, Call FOneway,
       Print (''Null Hypothesis rejected.'' @ [CHR 0x0A]
              @ ''There is a significance difference.'')],
      Inr (True, Fin 0.01))"
    by (simp add: run_defs lib0_def self0_def)
  from r0 h have b: "length (filter is_warn (fst (ANOVA lib0 self0 [[1, 2, 3], [4, 5]] False))) = 1"
    by blast
  from r0 have c: "warn_continues (fst (ANOVA lib0 self0 [[1, 2, 3], [4, 5]] False))"
    by blast
  have d: "ANOVA lib1 self0 [[1, 2, 3], [4, 5]] False =
       ([Warn (''Please ensure all the samples are of same length.''
               @ [CHR 0x0A] @ ''Try downsampling the larger samples.''),
         Call Shapiro],
        Inl (ValueError ''Sample is not Normally distributed''))"
    by (simp add: run_defs lib1_def self0_def)
  from r1 have e: "error_aborts (ANOVA lib1 self0 [[1, 2, 3], [4, 5]] False)"
    by blast
  from a b c d e show ?thesis by blast
qed

end
